theory Spec2Isabelle
  imports Complex_Main "HOL-Library.Multiset" "HOL-Library.Product_Lexorder"
begin

section \<open>Data model\<close>

text \<open>
  Calendar dates and pandas timestamps.  A \<open>Timestamp\<close> carries a calendar date and a
  time of day; \<open>date_obj.date()\<close> drops the time of day.  Python compares dates
  by (year, month, day), which is \<open>date_ord\<close>.
\<close>

record date =
  d_year :: int
  d_month :: int
  d_day :: int

record timestamp =
  ts_date :: date
  ts_nanos :: nat

definition date_ord :: "date \<Rightarrow> int \<times> int \<times> int" where
  "date_ord d = (d_year d, d_month d, d_day d)"

text \<open>
  A cell of a DataFrame: missing (\<open>NaN\<close>, also standing for \<open>NaT\<close>), a number, a
  string, or a timestamp (the \<open>sale_date\<close> column after \<open>pd.to_datetime\<close>).  A number
  stands for the exact value of the int or float the frame holds.
\<close>

datatype cell = NaN | Num rat | Str string | Ts timestamp

datatype error = ValueError | TypeError | IndexError | KeyError | DbError

text \<open>
  What pandas and Python do with a value that is not already of the target type
  (parsing a string as a number or as a date, \<open>int("12")\<close>, \<open>float("1.5")\<close>) is a
  parameter of the model: \<open>None\<close> is a value the library does not accept.
\<close>

record lib =
  parse_numeric :: "cell \<Rightarrow> rat option"
  parse_datetime :: "cell \<Rightarrow> timestamp option"
  parse_int :: "cell \<Rightarrow> int option"
  parse_float :: "cell \<Rightarrow> rat option"

record sales_row =
  s_sale_id :: cell
  s_sale_date :: cell
  s_customer_id :: cell
  s_product_id :: cell
  s_quantity :: cell
  s_unit_price :: cell
  s_total_amount :: cell

record customer_row =
  c_customer_id :: cell
  c_customer_name :: cell
  c_email :: cell
  c_city :: cell
  c_country :: cell

record product_row =
  p_product_id :: cell
  p_product_name :: cell
  p_category :: cell
  p_subcategory :: cell
  p_unit_cost :: cell

record date_dim_row =
  dd_sale_date :: date
  dd_day :: int
  dd_month :: int
  dd_quarter :: int
  dd_year :: int
  dd_month_name :: string
  dd_quarter_name :: string
  dd_day_of_week :: string
  dd_is_weekend :: bool

text \<open>A column of a frame of rows \<open>'r\<close>: how to read it and how to assign to it.\<close>

type_synonym 'r column = "('r \<Rightarrow> cell) \<times> ((cell \<Rightarrow> cell) \<Rightarrow> 'r \<Rightarrow> 'r)"

definition sales_columns :: "sales_row column list" where
  "sales_columns =
     [(s_sale_id, s_sale_id_update), (s_sale_date, s_sale_date_update),
      (s_customer_id, s_customer_id_update), (s_product_id, s_product_id_update),
      (s_quantity, s_quantity_update), (s_unit_price, s_unit_price_update),
      (s_total_amount, s_total_amount_update)]"

definition customer_columns :: "customer_row column list" where
  "customer_columns =
     [(c_customer_id, c_customer_id_update), (c_customer_name, c_customer_name_update),
      (c_email, c_email_update), (c_city, c_city_update), (c_country, c_country_update)]"

definition product_columns :: "product_row column list" where
  "product_columns =
     [(p_product_id, p_product_id_update), (p_product_name, p_product_name_update),
      (p_category, p_category_update), (p_subcategory, p_subcategory_update),
      (p_unit_cost, p_unit_cost_update)]"

section \<open>Library operations\<close>

text \<open>\<open>pd.to_numeric(..., errors='coerce')\<close> on one cell: what does not parse becomes NaN.\<close>

definition to_numeric :: "lib \<Rightarrow> cell \<Rightarrow> cell" where
  "to_numeric L c =
     (case c of
        NaN \<Rightarrow> NaN
      | Num q \<Rightarrow> Num q
      | _ \<Rightarrow> (case parse_numeric L c of Some q \<Rightarrow> Num q | None \<Rightarrow> NaN))"

text \<open>\<open>pd.to_datetime\<close> on one cell: missing stays missing (NaT), what does not parse raises.\<close>

definition to_datetime :: "lib \<Rightarrow> cell \<Rightarrow> error + cell" where
  "to_datetime L c =
     (case c of
        NaN \<Rightarrow> Inr NaN
      | Ts t \<Rightarrow> Inr (Ts t)
      | _ \<Rightarrow> (case parse_datetime L c of Some t \<Rightarrow> Inr (Ts t) | None \<Rightarrow> Inl ValueError))"

text \<open>Conversion of a number to an integer truncates towards zero.\<close>

definition trunc :: "rat \<Rightarrow> int" where
  "trunc q = (if q < 0 then \<lceil>q\<rceil> else \<lfloor>q\<rfloor>)"

definition py_int :: "lib \<Rightarrow> cell \<Rightarrow> error + int" where
  "py_int L c =
     (case c of
        Num q \<Rightarrow> Inr (trunc q)
      | NaN \<Rightarrow> Inl ValueError
      | Ts t \<Rightarrow> Inl TypeError
      | Str s \<Rightarrow> (case parse_int L c of Some n \<Rightarrow> Inr n | None \<Rightarrow> Inl ValueError))"

definition py_float :: "lib \<Rightarrow> cell \<Rightarrow> error + cell" where
  "py_float L c =
     (case c of
        Num q \<Rightarrow> Inr (Num q)
      | NaN \<Rightarrow> Inr NaN
      | Ts t \<Rightarrow> Inl TypeError
      | Str s \<Rightarrow> (case parse_float L c of Some q \<Rightarrow> Inr (Num q) | None \<Rightarrow> Inl ValueError))"

text \<open>\<open>.astype(int)\<close> on a column that holds numbers only (it follows \<open>to_numeric\<close> and \<open>dropna\<close>).\<close>

definition astype_int :: "cell \<Rightarrow> cell" where
  "astype_int c = (case c of Num q \<Rightarrow> Num (of_int (trunc q)) | _ \<Rightarrow> c)"

definition fillna :: "cell \<Rightarrow> cell \<Rightarrow> cell" where
  "fillna v c = (if c = NaN then v else c)"

text \<open>\<open>df.dropna(subset=cols)\<close>: the rows with no missing value in the columns \<open>cols\<close>.\<close>

definition dropna :: "('r \<Rightarrow> cell) list \<Rightarrow> 'r list \<Rightarrow> 'r list" where
  "dropna cols df = filter (\<lambda>r. \<forall>c \<in> set cols. c r \<noteq> NaN) df"

text \<open>The comparison \<open>column > 0\<close> on one cell; a missing value compares false.\<close>

definition gt0 :: "cell \<Rightarrow> bool" where
  "gt0 c = (case c of Num q \<Rightarrow> 0 < q | _ \<Rightarrow> False)"

text \<open>A column has dtype int64 or float64 when it holds numbers and missing values only.\<close>

definition numeric_dtype :: "('r \<Rightarrow> cell) \<Rightarrow> 'r list \<Rightarrow> bool" where
  "numeric_dtype col df = (\<forall>r \<in> set df. case col r of NaN \<Rightarrow> True | Num q \<Rightarrow> True | _ \<Rightarrow> False)"

text \<open>Python list indexing: a negative index counts from the end, out of range raises.\<close>

definition py_index :: "'a list \<Rightarrow> int \<Rightarrow> error + 'a" where
  "py_index xs i =
     (if 0 \<le> i \<and> i < int (length xs) then Inr (xs ! nat i)
      else if i < 0 \<and> - int (length xs) \<le> i then Inr (xs ! nat (int (length xs) + i))
      else Inl IndexError)"

text \<open>Python's \<open>str\<close> of an integer, as the f-string \<open>f"Q{quarter}"\<close> uses it.\<close>

definition digit :: "nat \<Rightarrow> char" where
  "digit n = ''0123456789'' ! n"

fun str_nat :: "nat \<Rightarrow> string" where
  "str_nat n = (if n < 10 then [digit n] else str_nat (n div 10) @ [digit (n mod 10)])"

definition str_int :: "int \<Rightarrow> string" where
  "str_int i = (if i < 0 then CHR ''-'' # str_nat (nat (- i)) else str_nat (nat i))"

text \<open>
  \<open>date.weekday()\<close>: Monday is 0 and Sunday is 6.  Python computes it from the proleptic
  Gregorian ordinal of the date (1 for 0001-01-01, a Monday).  The date of a timestamp
  has a month from 1 to 12, which is where the table of \<open>days_before_month\<close> is read.
\<close>

definition is_leap :: "int \<Rightarrow> bool" where
  "is_leap y = (y mod 4 = 0 \<and> (y mod 100 \<noteq> 0 \<or> y mod 400 = 0))"

definition days_before_year :: "int \<Rightarrow> int" where
  "days_before_year y = (y - 1) * 365 + (y - 1) div 4 - (y - 1) div 100 + (y - 1) div 400"

definition days_before_month :: "int \<Rightarrow> int \<Rightarrow> int" where
  "days_before_month y m =
     [0, 31, 59, 90, 120, 151, 181, 212, 243, 273, 304, 334] ! nat (m - 1)
       + (if 2 < m \<and> is_leap y then 1 else 0)"

definition toordinal :: "date \<Rightarrow> int" where
  "toordinal d = days_before_year (d_year d) + days_before_month (d_year d) (d_month d) + d_day d"

definition weekday :: "date \<Rightarrow> int" where
  "weekday d = (toordinal d + 6) mod 7"

section \<open>transform.py\<close>

subsection \<open>remove_duplicates\<close>

text \<open>
  \<open>df.drop_duplicates(subset=subset)\<close> keeps a row unless an earlier row has the same
  values in the \<open>subset\<close> columns (\<open>keep='first'\<close>).  The subset is given as the function
  \<open>key\<close>, the projection of a row to those columns (the identity for \<open>subset=None\<close>);
  \<open>seen\<close> holds the keys of the rows already passed.
\<close>

fun drop_dups :: "('r \<Rightarrow> 'k) \<Rightarrow> 'k list \<Rightarrow> 'r list \<Rightarrow> 'r list" where
  "drop_dups key seen [] = []"
| "drop_dups key seen (r # rs) =
     (if key r \<in> set seen then drop_dups key seen rs
      else r # drop_dups key (key r # seen) rs)"

definition drop_duplicates :: "('r \<Rightarrow> 'k) \<Rightarrow> 'r list \<Rightarrow> 'r list" where
  "drop_duplicates key df = drop_dups key [] df"

definition remove_duplicates :: "'r list \<Rightarrow> ('r \<Rightarrow> 'k) \<Rightarrow> 'r list" where
  "remove_duplicates df key = drop_duplicates key df"

subsection \<open>handle_missing_values\<close>

datatype strategy = Drop | Fill

text \<open>
  With \<open>'drop'\<close> every row with a missing value in any column goes.  With \<open>'fill'\<close>
  each column is filled in turn, numeric columns with 0 and the others with 'Unknown'.
\<close>

definition fill_column :: "'r column \<Rightarrow> 'r list \<Rightarrow> 'r list" where
  "fill_column col df =
     (if numeric_dtype (fst col) df then map (snd col (fillna (Num 0))) df
      else map (snd col (fillna (Str ''Unknown''))) df)"

fun handle_missing_values :: "'r column list \<Rightarrow> 'r list \<Rightarrow> strategy \<Rightarrow> 'r list" where
  "handle_missing_values columns df Drop = dropna (map fst columns) df"
| "handle_missing_values columns df Fill = fold fill_column columns df"

subsection \<open>transform_sales_data\<close>

text \<open>\<open>df['sale_date'] = pd.to_datetime(df['sale_date'])\<close>: one value that does not parse raises.\<close>

fun to_datetime_column :: "lib \<Rightarrow> sales_row list \<Rightarrow> error + sales_row list" where
  "to_datetime_column L [] = Inr []"
| "to_datetime_column L (r # rs) =
     (case to_datetime L (s_sale_date r) of
        Inl e \<Rightarrow> Inl e
      | Inr d \<Rightarrow>
          (case to_datetime_column L rs of
             Inl e \<Rightarrow> Inl e
           | Inr rs' \<Rightarrow> Inr (r\<lparr>s_sale_date := d\<rparr> # rs')))"

definition transform_sales_data :: "lib \<Rightarrow> sales_row list \<Rightarrow> error + sales_row list" where
  "transform_sales_data L sales_df =
     (let df = remove_duplicates sales_df s_sale_id;
          df = handle_missing_values sales_columns df Drop
      in case to_datetime_column L df of
           Inl e \<Rightarrow> Inl e
         | Inr df \<Rightarrow>
             (let df = map (s_quantity_update (to_numeric L)) df;
                  df = map (s_unit_price_update (to_numeric L)) df;
                  df = map (s_total_amount_update (to_numeric L)) df;
                  df = dropna [s_quantity, s_unit_price, s_total_amount] df;
                  df = filter (\<lambda>r. gt0 (s_quantity r) \<and> gt0 (s_unit_price r)
                                    \<and> gt0 (s_total_amount r)) df
              in Inr df))"

subsection \<open>transform_customers_data, transform_products_data\<close>

definition transform_customers_data :: "lib \<Rightarrow> customer_row list \<Rightarrow> customer_row list" where
  "transform_customers_data L customers_df =
     (let df = remove_duplicates customers_df c_customer_id;
          df = handle_missing_values customer_columns df Drop;
          df = map (c_customer_id_update (to_numeric L)) df;
          df = dropna [c_customer_id] df;
          df = map (c_customer_id_update astype_int) df
      in df)"

definition transform_products_data :: "lib \<Rightarrow> product_row list \<Rightarrow> product_row list" where
  "transform_products_data L products_df =
     (let df = remove_duplicates products_df p_product_id;
          df = handle_missing_values product_columns df Drop;
          df = map (p_product_id_update (to_numeric L)) df;
          df = dropna [p_product_id] df;
          df = map (p_product_id_update astype_int) df;
          df = map (p_unit_cost_update (to_numeric L)) df;
          df = map (p_unit_cost_update (fillna (Num 0))) df
      in df)"

subsection \<open>create_date_dimension\<close>

definition month_names :: "string list" where
  "month_names = [''January'', ''February'', ''March'', ''April'', ''May'', ''June'',
                  ''July'', ''August'', ''September'', ''October'', ''November'', ''December'']"

definition day_names :: "string list" where
  "day_names = [''Monday'', ''Tuesday'', ''Wednesday'', ''Thursday'', ''Friday'',
                ''Saturday'', ''Sunday'']"

text \<open>\<open>sales_df['sale_date'].unique()\<close>: the distinct values in order of first appearance.\<close>

definition unique :: "'a list \<Rightarrow> 'a list" where
  "unique xs = drop_dups (\<lambda>x. x) [] xs"

text \<open>The body of the loop, for a timestamp \<open>date_obj\<close>.\<close>

definition date_record :: "timestamp \<Rightarrow> error + date_dim_row" where
  "date_record date_obj =
     (let day = d_day (ts_date date_obj);
          month = d_month (ts_date date_obj);
          quarter = (month - 1) div 3 + 1;
          year = d_year (ts_date date_obj)
      in case py_index month_names (month - 1) of
           Inl e \<Rightarrow> Inl e
         | Inr month_name \<Rightarrow>
             (let quarter_name = ''Q'' @ str_int quarter
              in case py_index day_names (weekday (ts_date date_obj)) of
                   Inl e \<Rightarrow> Inl e
                 | Inr day_of_week \<Rightarrow>
                     (let is_weekend = (5 \<le> weekday (ts_date date_obj))
                      in Inr \<lparr>dd_sale_date = ts_date date_obj, dd_day = day,
                              dd_month = month, dd_quarter = quarter, dd_year = year,
                              dd_month_name = month_name, dd_quarter_name = quarter_name,
                              dd_day_of_week = day_of_week, dd_is_weekend = is_weekend\<rparr>)))"

text \<open>
  The loop over the unique dates.  \<open>pd.to_datetime(date)\<close> of a missing value is NaT,
  whose \<open>month\<close> is not an integer: indexing \<open>month_names\<close> with it raises TypeError.
\<close>

fun date_records :: "lib \<Rightarrow> cell list \<Rightarrow> error + date_dim_row list" where
  "date_records L [] = Inr []"
| "date_records L (date # dates) =
     (case to_datetime L date of
        Inl e \<Rightarrow> Inl e
      | Inr (Ts date_obj) \<Rightarrow>
          (case date_record date_obj of
             Inl e \<Rightarrow> Inl e
           | Inr record \<Rightarrow>
               (case date_records L dates of
                  Inl e \<Rightarrow> Inl e
                | Inr records \<Rightarrow> Inr (record # records)))
      | Inr _ \<Rightarrow> Inl TypeError)"

text \<open>
  \<open>pd.DataFrame(date_records)\<close> of an empty list is a frame with no columns, and
  \<open>sort_values('sale_date')\<close> on it raises KeyError.  Rows with equal \<open>sale_date\<close> are
  equal rows, so the result does not depend on the sorting algorithm.
\<close>

definition create_date_dimension :: "lib \<Rightarrow> sales_row list \<Rightarrow> error + date_dim_row list" where
  "create_date_dimension L sales_df =
     (let unique_dates = unique (map s_sale_date sales_df)
      in case date_records L unique_dates of
           Inl e \<Rightarrow> Inl e
         | Inr records \<Rightarrow>
             if records = [] then Inl KeyError
             else Inr (sort_key (\<lambda>r. date_ord (dd_sale_date r)) records))"

definition transform_all ::
  "lib \<Rightarrow> sales_row list \<Rightarrow> customer_row list \<Rightarrow> product_row list \<Rightarrow>
   error + (sales_row list \<times> customer_row list \<times> product_row list \<times> date_dim_row list)" where
  "transform_all L sales_df customers_df products_df =
     (case transform_sales_data L sales_df of
        Inl e \<Rightarrow> Inl e
      | Inr sales_clean \<Rightarrow>
          (let customers_clean = transform_customers_data L customers_df;
               products_clean = transform_products_data L products_df
           in case create_date_dimension L sales_clean of
                Inl e \<Rightarrow> Inl e
              | Inr date_dim \<Rightarrow> Inr (sales_clean, customers_clean, products_clean, date_dim)))"

section \<open>The warehouse\<close>

text \<open>
  Modelled from the spec: the schema of the warehouse (the script that creates the tables)
  is not among the sources.  The four tables have the columns that \<^verbatim>\<open>load.py\<close>
  names in its statements: the columns of each INSERT, the surrogate keys it selects, and
  \<open>updated_at\<close>.  As the spec has it, the store assigns the surrogate key of a new
  dimension row and keeps an update timestamp: the key is the next value of a counter
  kept per table, which every row of values advances, and \<open>updated_at\<close> of a new row is
  the time of its insertion.
\<close>

record dim_customer_row =
  dc_customer_key :: int
  dc_customer_id :: cell
  dc_customer_name :: cell
  dc_email :: cell
  dc_city :: cell
  dc_country :: cell
  dc_updated_at :: nat

record dim_product_row =
  dp_product_key :: int
  dp_product_id :: cell
  dp_product_name :: cell
  dp_category :: cell
  dp_subcategory :: cell
  dp_unit_cost :: cell
  dp_updated_at :: nat

record dim_date_row =
  dt_date_key :: int
  dt_values :: date_dim_row

record fact_sales_row =
  f_sale_id :: int
  f_date_key :: int
  f_customer_key :: int
  f_product_key :: int
  f_quantity :: int
  f_unit_price :: cell
  f_total_amount :: cell

record warehouse =
  dim_customer :: "dim_customer_row list"
  dim_product :: "dim_product_row list"
  dim_date :: "dim_date_row list"
  fact_sales :: "fact_sales_row list"
  customer_key_seq :: int
  product_key_seq :: int
  date_key_seq :: int

datatype table = Dim_customer | Dim_product | Dim_date | Fact_sales

text \<open>
  What the pipeline cannot decide: whether the store raises \<open>psycopg2.Error\<close> in the
  transaction on a table, and the value of \<open>CURRENT_TIMESTAMP\<close> in that transaction.
  A connection that cannot be opened has the effect of an error in the first
  transaction: nothing is written and the run ends with the error.
\<close>

record store =
  raises :: "table \<Rightarrow> bool"
  current_timestamp :: "table \<Rightarrow> nat"

text \<open>
  \<open>INSERT ... ON CONFLICT (target) DO ...\<close> for one row of values \<open>v\<close>: a row of the
  table whose \<open>target\<close> column equals that of \<open>v\<close> is a conflict and gets the action
  \<open>do_update\<close>; with no conflict the new row is appended.  (The target column is
  unique in a table of the store, so at most one row conflicts there.)
\<close>

definition insert_on_conflict ::
  "('row \<Rightarrow> 'k) \<Rightarrow> ('v \<Rightarrow> 'k) \<Rightarrow> ('row \<Rightarrow> 'v \<Rightarrow> 'row) \<Rightarrow> ('v \<Rightarrow> 'row) \<Rightarrow>
   'row list \<Rightarrow> 'v \<Rightarrow> 'row list" where
  "insert_on_conflict target excluded do_update new_row tbl v =
     (if \<exists>row \<in> set tbl. target row = excluded v
      then map (\<lambda>row. if target row = excluded v then do_update row v else row) tbl
      else tbl @ [new_row v])"

text \<open>
  \<open>execute_values(cursor, insert_query, values)\<close>: the statement \<open>stmt\<close> for each row of
  values in turn; \<open>seq\<close> is the counter of surrogate keys.
\<close>

fun execute_values ::
  "(int \<Rightarrow> 'row list \<Rightarrow> 'v \<Rightarrow> 'row list) \<Rightarrow> 'row list \<times> int \<Rightarrow> 'v list \<Rightarrow> 'row list \<times> int" where
  "execute_values stmt (tbl, seq) [] = (tbl, seq)"
| "execute_values stmt (tbl, seq) (v # values) =
     execute_values stmt (stmt seq tbl v, seq + 1) values"

section \<open>load.py\<close>

subsection \<open>load_dim_customer\<close>

definition upsert_dim_customer ::
  "nat \<Rightarrow> int \<Rightarrow> dim_customer_row list \<Rightarrow> customer_row \<Rightarrow> dim_customer_row list" where
  "upsert_dim_customer now seq =
     insert_on_conflict dc_customer_id c_customer_id
       (\<lambda>row excluded. row\<lparr>dc_customer_name := c_customer_name excluded,
                            dc_email := c_email excluded,
                            dc_city := c_city excluded,
                            dc_country := c_country excluded,
                            dc_updated_at := now\<rparr>)
       (\<lambda>v. \<lparr>dc_customer_key = seq, dc_customer_id = c_customer_id v,
              dc_customer_name = c_customer_name v, dc_email = c_email v,
              dc_city = c_city v, dc_country = c_country v, dc_updated_at = now\<rparr>)"

definition load_dim_customer :: "store \<Rightarrow> warehouse \<Rightarrow> customer_row list \<Rightarrow> error + warehouse" where
  "load_dim_customer db W customers_df =
     (let records = customers_df;
          (tbl, seq) = execute_values (upsert_dim_customer (current_timestamp db Dim_customer))
                         (dim_customer W, customer_key_seq W) records
      in if raises db Dim_customer then Inl DbError
         else Inr (W\<lparr>dim_customer := tbl, customer_key_seq := seq\<rparr>))"

subsection \<open>load_dim_product\<close>

definition upsert_dim_product ::
  "nat \<Rightarrow> int \<Rightarrow> dim_product_row list \<Rightarrow> product_row \<Rightarrow> dim_product_row list" where
  "upsert_dim_product now seq =
     insert_on_conflict dp_product_id p_product_id
       (\<lambda>row excluded. row\<lparr>dp_product_name := p_product_name excluded,
                            dp_category := p_category excluded,
                            dp_subcategory := p_subcategory excluded,
                            dp_unit_cost := p_unit_cost excluded,
                            dp_updated_at := now\<rparr>)
       (\<lambda>v. \<lparr>dp_product_key = seq, dp_product_id = p_product_id v,
              dp_product_name = p_product_name v, dp_category = p_category v,
              dp_subcategory = p_subcategory v, dp_unit_cost = p_unit_cost v,
              dp_updated_at = now\<rparr>)"

definition load_dim_product :: "store \<Rightarrow> warehouse \<Rightarrow> product_row list \<Rightarrow> error + warehouse" where
  "load_dim_product db W products_df =
     (let records = products_df;
          (tbl, seq) = execute_values (upsert_dim_product (current_timestamp db Dim_product))
                         (dim_product W, product_key_seq W) records
      in if raises db Dim_product then Inl DbError
         else Inr (W\<lparr>dim_product := tbl, product_key_seq := seq\<rparr>))"

subsection \<open>load_dim_date\<close>

definition insert_dim_date :: "int \<Rightarrow> dim_date_row list \<Rightarrow> date_dim_row \<Rightarrow> dim_date_row list" where
  "insert_dim_date seq =
     insert_on_conflict (\<lambda>row. dd_sale_date (dt_values row)) dd_sale_date
       (\<lambda>row excluded. row)
       (\<lambda>v. \<lparr>dt_date_key = seq, dt_values = v\<rparr>)"

definition load_dim_date :: "store \<Rightarrow> warehouse \<Rightarrow> date_dim_row list \<Rightarrow> error + warehouse" where
  "load_dim_date db W date_df =
     (let records = date_df;
          (tbl, seq) = execute_values insert_dim_date (dim_date W, date_key_seq W) records
      in if raises db Dim_date then Inl DbError
         else Inr (W\<lparr>dim_date := tbl, date_key_seq := seq\<rparr>))"

subsection \<open>load_fact_sales\<close>

text \<open>The three lookup dictionaries, filled row by row from the dimension tables.\<close>

definition date_lookup_of :: "dim_date_row list \<Rightarrow> (date \<rightharpoonup> int)" where
  "date_lookup_of rows =
     fold (\<lambda>row lookup. lookup(dd_sale_date (dt_values row) \<mapsto> dt_date_key row)) rows Map.empty"

definition customer_lookup_of :: "dim_customer_row list \<Rightarrow> (cell \<rightharpoonup> int)" where
  "customer_lookup_of rows =
     fold (\<lambda>row lookup. lookup(dc_customer_id row \<mapsto> dc_customer_key row)) rows Map.empty"

definition product_lookup_of :: "dim_product_row list \<Rightarrow> (cell \<rightharpoonup> int)" where
  "product_lookup_of rows =
     fold (\<lambda>row lookup. lookup(dp_product_id row \<mapsto> dp_product_key row)) rows Map.empty"

text \<open>Python truth of a looked-up key: \<open>None\<close> and 0 are false.\<close>

definition truthy :: "int option \<Rightarrow> bool" where
  "truthy k = (case k of None \<Rightarrow> False | Some n \<Rightarrow> n \<noteq> 0)"

text \<open>
  The body of the loop over the sales rows, in its two parts.  First the natural keys
  are converted and looked up with \<open>dict.get\<close>, \<open>None\<close> for a key that is absent;
  \<open>NaT.date()\<close> is NaT, which is no key of \<open>date_lookup\<close>.
\<close>

definition lookup_keys ::
  "lib \<Rightarrow> (date \<rightharpoonup> int) \<Rightarrow> (cell \<rightharpoonup> int) \<Rightarrow> (cell \<rightharpoonup> int) \<Rightarrow> sales_row \<Rightarrow>
   error + int option \<times> int option \<times> int option" where
  "lookup_keys L date_lookup customer_lookup product_lookup row =
     (case to_datetime L (s_sale_date row) of
        Inl e \<Rightarrow> Inl e
      | Inr sale_date \<Rightarrow>
     (case py_int L (s_customer_id row) of
        Inl e \<Rightarrow> Inl e
      | Inr customer_id \<Rightarrow>
     (case py_int L (s_product_id row) of
        Inl e \<Rightarrow> Inl e
      | Inr product_id \<Rightarrow>
          Inr (case sale_date of Ts t \<Rightarrow> date_lookup (ts_date t) | _ \<Rightarrow> None,
               customer_lookup (Num (of_int customer_id)),
               product_lookup (Num (of_int product_id))))))"

text \<open>
  Then the test \<open>not all([date_key, customer_key, product_key])\<close> and the record:
  \<open>Inr None\<close> is a skipped row (the \<open>continue\<close>), \<open>Inr (Some f)\<close> an appended fact
  record, \<open>Inl e\<close> a raised error.
\<close>

definition fact_record ::
  "lib \<Rightarrow> (date \<rightharpoonup> int) \<Rightarrow> (cell \<rightharpoonup> int) \<Rightarrow> (cell \<rightharpoonup> int) \<Rightarrow> sales_row \<Rightarrow>
   error + fact_sales_row option" where
  "fact_record L date_lookup customer_lookup product_lookup row =
     (case lookup_keys L date_lookup customer_lookup product_lookup row of
        Inl e \<Rightarrow> Inl e
      | Inr (date_key, customer_key, product_key) \<Rightarrow>
          if \<not> (truthy date_key \<and> truthy customer_key \<and> truthy product_key) then Inr None
          else
     (case py_int L (s_sale_id row) of
        Inl e \<Rightarrow> Inl e
      | Inr sale_id \<Rightarrow>
     (case py_int L (s_quantity row) of
        Inl e \<Rightarrow> Inl e
      | Inr quantity \<Rightarrow>
     (case py_float L (s_unit_price row) of
        Inl e \<Rightarrow> Inl e
      | Inr unit_price \<Rightarrow>
     (case py_float L (s_total_amount row) of
        Inl e \<Rightarrow> Inl e
      | Inr total_amount \<Rightarrow>
          Inr (Some \<lparr>f_sale_id = sale_id, f_date_key = the date_key,
                     f_customer_key = the customer_key, f_product_key = the product_key,
                     f_quantity = quantity, f_unit_price = unit_price,
                     f_total_amount = total_amount\<rparr>))))))"

fun fact_records ::
  "lib \<Rightarrow> (date \<rightharpoonup> int) \<Rightarrow> (cell \<rightharpoonup> int) \<Rightarrow> (cell \<rightharpoonup> int) \<Rightarrow> sales_row list \<Rightarrow>
   fact_sales_row list \<times> nat \<Rightarrow> error + fact_sales_row list \<times> nat" where
  "fact_records L dl cl pl [] acc = Inr acc"
| "fact_records L dl cl pl (row # rows) (records, skipped) =
     (case fact_record L dl cl pl row of
        Inl e \<Rightarrow> Inl e
      | Inr None \<Rightarrow> fact_records L dl cl pl rows (records, skipped + 1)
      | Inr (Some f) \<Rightarrow> fact_records L dl cl pl rows (records @ [f], skipped))"

definition upsert_fact_sales :: "fact_sales_row list \<Rightarrow> fact_sales_row \<Rightarrow> fact_sales_row list" where
  "upsert_fact_sales =
     insert_on_conflict f_sale_id f_sale_id
       (\<lambda>row excluded. row\<lparr>f_quantity := f_quantity excluded,
                            f_unit_price := f_unit_price excluded,
                            f_total_amount := f_total_amount excluded\<rparr>)
       (\<lambda>v. v)"

text \<open>The result is the warehouse and the number of skipped rows, which is printed.\<close>

definition load_fact_sales ::
  "store \<Rightarrow> lib \<Rightarrow> warehouse \<Rightarrow> sales_row list \<Rightarrow> error + warehouse \<times> nat" where
  "load_fact_sales db L W sales_df =
     (let date_lookup = date_lookup_of (dim_date W);
          customer_lookup = customer_lookup_of (dim_customer W);
          product_lookup = product_lookup_of (dim_product W)
      in case fact_records L date_lookup customer_lookup product_lookup sales_df ([], 0) of
           Inl e \<Rightarrow> Inl e
         | Inr (records, skipped) \<Rightarrow>
             if raises db Fact_sales then Inl DbError
             else Inr (W\<lparr>fact_sales :=
                            fst (execute_values (\<lambda>seq. upsert_fact_sales) (fact_sales W, 0) records)\<rparr>,
                       skipped))"

subsection \<open>load_all and the pipeline\<close>

text \<open>
  A step that raises leaves its table as it was (the rollback) and ends the run; the
  tables written by the steps before it stay written.  The result is the warehouse
  after the run and the error raised, if any.
\<close>

definition load_all ::
  "store \<Rightarrow> lib \<Rightarrow> warehouse \<Rightarrow> sales_row list \<Rightarrow> customer_row list \<Rightarrow> product_row list \<Rightarrow>
   date_dim_row list \<Rightarrow> warehouse \<times> error option" where
  "load_all db L W sales_df customers_df products_df date_df =
     (case load_dim_customer db W customers_df of
        Inl e \<Rightarrow> (W, Some e)
      | Inr W1 \<Rightarrow>
     (case load_dim_product db W1 products_df of
        Inl e \<Rightarrow> (W1, Some e)
      | Inr W2 \<Rightarrow>
     (case load_dim_date db W2 date_df of
        Inl e \<Rightarrow> (W2, Some e)
      | Inr W3 \<Rightarrow>
     (case load_fact_sales db L W3 sales_df of
        Inl e \<Rightarrow> (W3, Some e)
      | Inr (W4, skipped) \<Rightarrow> (W4, None)))))"

text \<open>
  \<open>main\<close> of \<^verbatim>\<open>run_etl.py\<close>, from the extracted frames on (a missing input file ends
  the run before it reaches them).
\<close>

definition run_etl ::
  "store \<Rightarrow> lib \<Rightarrow> warehouse \<Rightarrow> sales_row list \<Rightarrow> customer_row list \<Rightarrow> product_row list \<Rightarrow>
   warehouse \<times> error option" where
  "run_etl db L W sales customers products =
     (case transform_all L sales customers products of
        Inl e \<Rightarrow> (W, Some e)
      | Inr (sales_t, customers_t, products_t, date_dim) \<Rightarrow>
          load_all db L W sales_t customers_t products_t date_dim)"

section \<open>Comparing warehouses\<close>

text \<open>
  Two warehouses hold the same rows but for \<open>updated_at\<close>: the customer and product
  tables agree once that column is blanked, the date and fact tables are equal.
\<close>

definition same_but_updated_at :: "warehouse \<Rightarrow> warehouse \<Rightarrow> bool" where
  "same_but_updated_at W W' =
     (map (dc_updated_at_update (\<lambda>t. 0)) (dim_customer W)
        = map (dc_updated_at_update (\<lambda>t. 0)) (dim_customer W') \<and>
      map (dp_updated_at_update (\<lambda>t. 0)) (dim_product W)
        = map (dp_updated_at_update (\<lambda>t. 0)) (dim_product W') \<and>
      dim_date W = dim_date W' \<and>
      fact_sales W = fact_sales W')"

section \<open>Example inputs\<close>

text \<open>A library that accepts nothing but values already of the target type.\<close>

definition no_parse :: lib where
  "no_parse = \<lparr>parse_numeric = (\<lambda>c. None), parse_datetime = (\<lambda>c. None),
                parse_int = (\<lambda>c. None), parse_float = (\<lambda>c. None)\<rparr>"

text \<open>The sale of the end-to-end scenario (sale 100: customer 1, product 10), on a given day.\<close>

definition sale_on :: "int \<Rightarrow> int \<Rightarrow> int \<Rightarrow> sales_row" where
  "sale_on y m d =
     \<lparr>s_sale_id = Num 100,
      s_sale_date = Ts \<lparr>ts_date = \<lparr>d_year = y, d_month = m, d_day = d\<rparr>, ts_nanos = 0\<rparr>,
      s_customer_id = Num 1, s_product_id = Num 10, s_quantity = Num 3,
      s_unit_price = Num (999 / 100), s_total_amount = Num (2997 / 100)\<rparr>"

text \<open>The dimension rows of the scenario: customer 1, product 10 and the day 2024-03-15.\<close>

definition alice :: "int \<Rightarrow> dim_customer_row" where
  "alice k = \<lparr>dc_customer_key = k, dc_customer_id = Num 1, dc_customer_name = Str ''Alice'',
              dc_email = Str ''a@x.com'', dc_city = Str ''NY'', dc_country = Str ''US'',
              dc_updated_at = 0\<rparr>"

definition widget :: "int \<Rightarrow> dim_product_row" where
  "widget k = \<lparr>dp_product_key = k, dp_product_id = Num 10, dp_product_name = Str ''Widget'',
               dp_category = Str ''Tools'', dp_subcategory = Str ''Hand'',
               dp_unit_cost = Num (5 / 2), dp_updated_at = 0\<rparr>"

definition march_15 :: "int \<Rightarrow> dim_date_row" where
  "march_15 k =
     \<lparr>dt_date_key = k,
      dt_values = \<lparr>dd_sale_date = \<lparr>d_year = 2024, d_month = 3, d_day = 15\<rparr>, dd_day = 15,
                   dd_month = 3, dd_quarter = 1, dd_year = 2024, dd_month_name = ''March'',
                   dd_quarter_name = ''Q1'', dd_day_of_week = ''Friday'',
                   dd_is_weekend = False\<rparr>\<rparr>"

text \<open>A warehouse that holds them under the surrogate keys \<open>dk\<close>, \<open>ck\<close> and \<open>pk\<close>, and no fact.\<close>

definition scenario_warehouse :: "int \<Rightarrow> int \<Rightarrow> int \<Rightarrow> warehouse" where
  "scenario_warehouse dk ck pk =
     \<lparr>dim_customer = [alice ck], dim_product = [widget pk], dim_date = [march_15 dk],
      fact_sales = [], customer_key_seq = 2, product_key_seq = 2, date_key_seq = 2\<rparr>"

text \<open>A store that raises nothing, with the clock at \<open>now\<close>.\<close>

definition quiet_store :: "nat \<Rightarrow> store" where
  "quiet_store now = \<lparr>raises = (\<lambda>t. False), current_timestamp = (\<lambda>t. now)\<rparr>"

text \<open>The product of the scenario, with a given cell as its unit cost.\<close>

definition widget_costing :: "cell \<Rightarrow> product_row" where
  "widget_costing c = \<lparr>p_product_id = Num 10, p_product_name = Str ''Widget'',
     p_category = Str ''Tools'', p_subcategory = Str ''Hand'', p_unit_cost = c\<rparr>"

text \<open>
  The raw sale of the scenario, with a given sale id and quantity: its date is still the
  string of the CSV file.  The library \<open>scenario_lib\<close> parses that string and nothing else.
\<close>

definition raw_sale :: "cell \<Rightarrow> cell \<Rightarrow> sales_row" where
  "raw_sale i q =
     \<lparr>s_sale_id = i, s_sale_date = Str ''2024-03-15'', s_customer_id = Num 1,
      s_product_id = Num 10, s_quantity = q, s_unit_price = Num (999 / 100),
      s_total_amount = Num (2997 / 100)\<rparr>"

definition scenario_lib :: lib where
  "scenario_lib =
     \<lparr>parse_numeric = (\<lambda>c. None),
      parse_datetime = (\<lambda>c. if c = Str ''2024-03-15''
         then Some \<lparr>ts_date = \<lparr>d_year = 2024, d_month = 3, d_day = 15\<rparr>, ts_nanos = 0\<rparr>
         else None),
      parse_int = (\<lambda>c. None), parse_float = (\<lambda>c. None)\<rparr>"

text \<open>A fact row of sale 100 with given surrogate keys and quantity, at the unit price 9.99.\<close>

definition fact_100 :: "int \<Rightarrow> int \<Rightarrow> int \<Rightarrow> int \<Rightarrow> fact_sales_row" where
  "fact_100 dk ck pk q = \<lparr>f_sale_id = 100, f_date_key = dk, f_customer_key = ck,
     f_product_key = pk, f_quantity = q, f_unit_price = Num (999 / 100),
     f_total_amount = Num (of_int q * 999 / 100)\<rparr>"

text \<open>The customer of the scenario as extracted, and a warehouse with empty tables.\<close>

definition alice_raw :: customer_row where
  "alice_raw = \<lparr>c_customer_id = Num 1, c_customer_name = Str ''Alice'',
     c_email = Str ''a@x.com'', c_city = Str ''NY'', c_country = Str ''US''\<rparr>"

definition empty_warehouse :: warehouse where
  "empty_warehouse = \<lparr>dim_customer = [], dim_product = [], dim_date = [], fact_sales = [],
     customer_key_seq = 1, product_key_seq = 1, date_key_seq = 1\<rparr>"

section \<open>Deduplication\<close>

lemma drop_dups_keys:
  "key ` set (drop_dups key seen rs) = key ` set rs - set seen"
  by (induction rs arbitrary: seen) auto

lemma drop_dups_subset: "set (drop_dups key seen rs) \<subseteq> set rs"
  by (induction rs arbitrary: seen) auto

lemma drop_dups_distinct: "distinct (map key (drop_dups key seen rs))"
proof (induction rs arbitrary: seen)
  case Nil
  show ?case by simp
next
  case (Cons r rs)
  have "key r \<notin> key ` set (drop_dups key (key r # seen) rs)"
    unfolding drop_dups_keys by simp
  with Cons show ?case by simp
qed

lemma drop_dups_first:
  "r \<in> set (drop_dups key seen rs) \<Longrightarrow> find (\<lambda>x. key x = key r) rs = Some r"
proof (induction rs arbitrary: seen)
  case Nil
  then show ?case by simp
next
  case (Cons a rs)
  show ?case
  proof (cases "key a \<in> set seen")
    case True
    with Cons.prems have mem: "r \<in> set (drop_dups key seen rs)" by simp
    then have "key r \<in> key ` set rs - set seen"
      using drop_dups_keys [of key seen rs] by blast
    with True have "key a \<noteq> key r" by auto
    with Cons.IH [OF mem] show ?thesis by simp
  next
    case False
    with Cons.prems consider "r = a" | "r \<in> set (drop_dups key (key a # seen) rs)"
      by auto
    then show ?thesis
    proof cases
      case 1
      then show ?thesis by simp
    next
      case 2
      then have "key r \<in> key ` set rs - set (key a # seen)"
        using drop_dups_keys [of key "key a # seen" rs] by blast
      then have "key a \<noteq> key r" by auto
      with Cons.IH [OF 2] show ?thesis by simp
    qed
  qed
qed

text \<open>
  C5: the deduplication step emits at most one row per key value (the keys of the
  emitted rows are pairwise distinct), every emitted row is the first row of the input
  with its key, and no key value of the input is lost.
\<close>

theorem remove_duplicates_first_per_key:
  "distinct (map key (remove_duplicates df key)) \<and>
   (\<forall>r \<in> set (remove_duplicates df key).
      find (\<lambda>x. key x = key r) df = Some r) \<and>
   key ` set (remove_duplicates df key) = key ` set df"
  unfolding remove_duplicates_def drop_duplicates_def
  using drop_dups_distinct [of key "[]" df] drop_dups_first [of _ key "[]" df]
    drop_dups_keys [of key "[]" df]
  by auto

text \<open>An instance with a duplicated key: the first row of key 1 is the one kept.\<close>

theorem remove_duplicates_first_per_key_witness:
  "remove_duplicates [(1::int, ''a''), (2, ''b''), (1, ''c'')] fst = [(1, ''a''), (2, ''b'')] \<and>
   find (\<lambda>x. fst x = fst (1::int, ''a'')) [(1::int, ''a''), (2, ''b''), (1, ''c'')] = Some (1, ''a'') \<and>
   distinct (map fst (remove_duplicates [(1::int, ''a''), (2, ''b''), (1, ''c'')] fst))"
proof -
  have out: "remove_duplicates [(1::int, ''a''), (2, ''b''), (1, ''c'')] fst = [(1, ''a''), (2, ''b'')]"
    by (simp add: remove_duplicates_def drop_duplicates_def)
  show ?thesis
    using remove_duplicates_first_per_key [of fst "[(1::int, ''a''), (2, ''b''), (1, ''c'')]"] out
    by simp
qed

section \<open>The date dimension\<close>

lemma weekday_range: "0 \<le> weekday d \<and> weekday d < 7"
  by (simp add: weekday_def)

lemma date_record_Inr:
  assumes "date_record t = Inr row"
  shows "dd_sale_date row = ts_date t"
    and "dd_day row = d_day (ts_date t)"
    and "dd_month row = d_month (ts_date t)"
    and "dd_year row = d_year (ts_date t)"
    and "dd_quarter row = (d_month (ts_date t) - 1) div 3 + 1"
    and "dd_quarter_name row = ''Q'' @ str_int (dd_quarter row)"
    and "py_index month_names (d_month (ts_date t) - 1) = Inr (dd_month_name row)"
    and "dd_day_of_week row = day_names ! nat (weekday (ts_date t))"
    and "dd_is_weekend row = (5 \<le> weekday (ts_date t))"
  using assms weekday_range [of "ts_date t"]
  by (auto simp: date_record_def Let_def py_index_def day_names_def split: sum.splits if_splits)

lemma date_records_rows:
  "date_records L ds = Inr recs \<Longrightarrow> row \<in> set recs \<Longrightarrow> \<exists>t. date_record t = Inr row"
  by (induction ds arbitrary: recs) (auto split: sum.splits cell.splits)

lemma create_date_dimension_rows:
  assumes "create_date_dimension L sales_df = Inr date_dim" and "row \<in> set date_dim"
  shows "\<exists>t. date_record t = Inr row"
proof -
  from assms(1) obtain recs
    where recs: "date_records L (unique (map s_sale_date sales_df)) = Inr recs"
      and dim: "date_dim = sort_key (\<lambda>r. date_ord (dd_sale_date r)) recs"
    by (auto simp: create_date_dimension_def Let_def split: sum.splits if_splits)
  from dim assms(2) have "row \<in> set recs" by simp
  with recs show ?thesis by (rule date_records_rows)
qed

lemma day_name_weekend:
  assumes "0 \<le> w" and "w < 7"
  shows "(5 \<le> w) = (day_names ! nat w = ''Saturday'' \<or> day_names ! nat w = ''Sunday'')"
proof -
  from assms have "w = 0 \<or> w = 1 \<or> w = 2 \<or> w = 3 \<or> w = 4 \<or> w = 5 \<or> w = (6::int)"
    by arith
  then show ?thesis by (auto simp: day_names_def)
qed

lemmas date_eval =
  create_date_dimension_def unique_def sale_on_def to_datetime_def date_record_def
  py_index_def month_names_def day_names_def weekday_def toordinal_def days_before_year_def
  days_before_month_def is_leap_def str_int_def digit_def

lemma dimension_2024_03_15:
  "create_date_dimension no_parse [sale_on 2024 3 15] =
     Inr [\<lparr>dd_sale_date = \<lparr>d_year = 2024, d_month = 3, d_day = 15\<rparr>, dd_day = 15,
           dd_month = 3, dd_quarter = 1, dd_year = 2024, dd_month_name = ''March'',
           dd_quarter_name = ''Q1'', dd_day_of_week = ''Friday'', dd_is_weekend = False\<rparr>]"
  by (simp add: date_eval)

lemma dimension_2024_02_29:
  "create_date_dimension no_parse [sale_on 2024 2 29] =
     Inr [\<lparr>dd_sale_date = \<lparr>d_year = 2024, d_month = 2, d_day = 29\<rparr>, dd_day = 29,
           dd_month = 2, dd_quarter = 1, dd_year = 2024, dd_month_name = ''February'',
           dd_quarter_name = ''Q1'', dd_day_of_week = ''Thursday'', dd_is_weekend = False\<rparr>]"
  by (simp add: date_eval)

text \<open>
  C3: every row of the date dimension has \<open>quarter = (month - 1) div 3 + 1\<close>, where
  \<open>month\<close> is the month of the row's date, whatever the year; so the months 1 to 3 give
  quarter 1, 4 to 6 give 2, 7 to 9 give 3 and 10 to 12 give 4, and \<open>quarter_name\<close> is
  "Q" followed by the quarter.
\<close>

theorem quarter_of_month:
  assumes "create_date_dimension L sales_df = Inr date_dim" and "row \<in> set date_dim"
  shows "dd_month row = d_month (dd_sale_date row) \<and>
         dd_year row = d_year (dd_sale_date row) \<and>
         dd_quarter row = (dd_month row - 1) div 3 + 1 \<and>
         dd_quarter_name row = ''Q'' @ str_int (dd_quarter row) \<and>
         (dd_month row \<in> {1, 2, 3} \<longrightarrow> dd_quarter row = 1 \<and> dd_quarter_name row = ''Q1'') \<and>
         (dd_month row \<in> {4, 5, 6} \<longrightarrow> dd_quarter row = 2 \<and> dd_quarter_name row = ''Q2'') \<and>
         (dd_month row \<in> {7, 8, 9} \<longrightarrow> dd_quarter row = 3 \<and> dd_quarter_name row = ''Q3'') \<and>
         (dd_month row \<in> {10, 11, 12} \<longrightarrow> dd_quarter row = 4 \<and> dd_quarter_name row = ''Q4'')"
proof -
  from create_date_dimension_rows [OF assms] obtain t where t: "date_record t = Inr row" ..
  note r = date_record_Inr [OF t]
  have q: "dd_quarter row = (dd_month row - 1) div 3 + 1" using r by simp
  have n: "dd_quarter_name row = ''Q'' @ str_int (dd_quarter row)" using r by simp
  have "dd_month row \<in> {1, 2, 3} \<longrightarrow> dd_quarter row = 1 \<and> dd_quarter_name row = ''Q1''"
    using q n by (auto simp: str_int_def digit_def)
  moreover
  have "dd_month row \<in> {4, 5, 6} \<longrightarrow> dd_quarter row = 2 \<and> dd_quarter_name row = ''Q2''"
    using q n by (auto simp: str_int_def digit_def)
  moreover
  have "dd_month row \<in> {7, 8, 9} \<longrightarrow> dd_quarter row = 3 \<and> dd_quarter_name row = ''Q3''"
    using q n by (auto simp: str_int_def digit_def)
  moreover
  have "dd_month row \<in> {10, 11, 12} \<longrightarrow> dd_quarter row = 4 \<and> dd_quarter_name row = ''Q4''"
    using q n by (auto simp: str_int_def digit_def)
  ultimately show ?thesis using q n r(1,3,4) by simp
qed

text \<open>The sale of 2024-03-15: month 3, quarter 1, "Q1".\<close>

theorem quarter_of_month_witness:
  "hd (projr (create_date_dimension no_parse [sale_on 2024 3 15]))
     \<in> set (projr (create_date_dimension no_parse [sale_on 2024 3 15])) \<and>
   dd_month (hd (projr (create_date_dimension no_parse [sale_on 2024 3 15]))) \<in> {1, 2, 3} \<and>
   dd_quarter (hd (projr (create_date_dimension no_parse [sale_on 2024 3 15]))) = 1 \<and>
   dd_quarter_name (hd (projr (create_date_dimension no_parse [sale_on 2024 3 15]))) = ''Q1''"
proof -
  let ?dim = "projr (create_date_dimension no_parse [sale_on 2024 3 15])"
  have dim: "create_date_dimension no_parse [sale_on 2024 3 15] = Inr ?dim"
    by (simp add: dimension_2024_03_15)
  have mem: "hd ?dim \<in> set ?dim" by (simp add: dimension_2024_03_15)
  have m3: "dd_month (hd ?dim) \<in> {1, 2, 3}" by (simp add: dimension_2024_03_15)
  from quarter_of_month [OF dim mem]
  have "dd_month (hd ?dim) \<in> {1, 2, 3} \<longrightarrow>
          dd_quarter (hd ?dim) = 1 \<and> dd_quarter_name (hd ?dim) = ''Q1''"
    by (elim conjE)
  with mem m3 show ?thesis by (intro conjI) (elim impE, assumption, elim conjE, assumption)+
qed

text \<open>
  C4: in every row of the date dimension, \<open>day_of_week\<close> is the entry of the seven-entry
  table \<open>day_names\<close> at the weekday of the row's date (Monday 0 to Sunday 6), and
  \<open>is_weekend\<close> holds exactly when that weekday is 5 or 6, that is when \<open>day_of_week\<close>
  is Saturday or Sunday.  The leap day 2024-02-29 is a Thursday and no weekend.
\<close>

theorem weekend_flag:
  assumes "create_date_dimension L sales_df = Inr date_dim" and "row \<in> set date_dim"
  shows "0 \<le> weekday (dd_sale_date row) \<and> weekday (dd_sale_date row) < 7 \<and>
         length day_names = 7 \<and>
         dd_day_of_week row = day_names ! nat (weekday (dd_sale_date row)) \<and>
         dd_is_weekend row = (weekday (dd_sale_date row) = 5 \<or> weekday (dd_sale_date row) = 6) \<and>
         dd_is_weekend row = (dd_day_of_week row = ''Saturday'' \<or> dd_day_of_week row = ''Sunday'') \<and>
         day_names ! 0 = ''Monday'' \<and> day_names ! 5 = ''Saturday'' \<and>
         day_names ! 6 = ''Sunday'' \<and>
         weekday \<lparr>d_year = 2024, d_month = 2, d_day = 29\<rparr> = 3 \<and>
         day_names ! 3 = ''Thursday''"
proof -
  from create_date_dimension_rows [OF assms] obtain t where t: "date_record t = Inr row" ..
  note r = date_record_Inr [OF t]
  let ?w = "weekday (dd_sale_date row)"
  have w: "0 \<le> ?w \<and> ?w < 7" by (rule weekday_range)
  have d: "dd_day_of_week row = day_names ! nat ?w" using r by simp
  have e: "dd_is_weekend row = (5 \<le> ?w)" using r by simp
  have "dd_is_weekend row = (?w = 5 \<or> ?w = 6)" using e w by auto
  moreover
  have "dd_is_weekend row = (dd_day_of_week row = ''Saturday'' \<or> dd_day_of_week row = ''Sunday'')"
    using day_name_weekend [of ?w] w d e by simp
  moreover
  have "weekday \<lparr>d_year = 2024, d_month = 2, d_day = 29\<rparr> = 3"
    by (simp add: weekday_def toordinal_def days_before_year_def days_before_month_def is_leap_def)
  moreover
  have "day_names ! 3 = ''Thursday'' \<and> length day_names = 7 \<and> day_names ! 0 = ''Monday'' \<and>
        day_names ! 5 = ''Saturday'' \<and> day_names ! 6 = ''Sunday''"
    by (simp add: day_names_def)
  ultimately show ?thesis using w d by simp
qed

text \<open>The dimension built from a sale on the leap day 2024-02-29.\<close>

theorem weekend_flag_witness:
  "hd (projr (create_date_dimension no_parse [sale_on 2024 2 29]))
     \<in> set (projr (create_date_dimension no_parse [sale_on 2024 2 29])) \<and>
   dd_day_of_week (hd (projr (create_date_dimension no_parse [sale_on 2024 2 29]))) = ''Thursday'' \<and>
   dd_is_weekend (hd (projr (create_date_dimension no_parse [sale_on 2024 2 29]))) =
     (dd_day_of_week (hd (projr (create_date_dimension no_parse [sale_on 2024 2 29]))) = ''Saturday'' \<or>
      dd_day_of_week (hd (projr (create_date_dimension no_parse [sale_on 2024 2 29]))) = ''Sunday'') \<and>
   \<not> dd_is_weekend (hd (projr (create_date_dimension no_parse [sale_on 2024 2 29])))"
proof -
  let ?dim = "projr (create_date_dimension no_parse [sale_on 2024 2 29])"
  have dim: "create_date_dimension no_parse [sale_on 2024 2 29] = Inr ?dim"
    by (simp add: dimension_2024_02_29)
  have mem: "hd ?dim \<in> set ?dim" by (simp add: dimension_2024_02_29)
  have thu: "dd_day_of_week (hd ?dim) = ''Thursday''" by (simp add: dimension_2024_02_29)
  have no: "\<not> dd_is_weekend (hd ?dim)" by (simp add: dimension_2024_02_29)
  from weekend_flag [OF dim mem]
  have "dd_is_weekend (hd ?dim) =
          (dd_day_of_week (hd ?dim) = ''Saturday'' \<or> dd_day_of_week (hd ?dim) = ''Sunday'')"
    by (elim conjE)
  with mem thu no show ?thesis by (intro conjI)
qed

section \<open>Resolving surrogate keys\<close>

lemma fact_record_miss:
  assumes "lookup_keys L dl cl pl row = Inr (dk, ck, pk)"
    and "dk = None \<or> ck = None \<or> pk = None"
  shows "fact_record L dl cl pl row = Inr None"
  using assms by (auto simp: fact_record_def truthy_def)

lemma fact_record_zero:
  assumes "lookup_keys L dl cl pl row = Inr (Some dk, Some ck, Some pk)"
  shows "(fact_record L dl cl pl row = Inr None) = (dk = 0 \<or> ck = 0 \<or> pk = 0)"
  using assms by (auto simp: fact_record_def truthy_def split: sum.splits)

lemma fact_record_emitted:
  assumes "fact_record L dl cl pl row = Inr (Some f)"
  shows "\<exists>dk ck pk. lookup_keys L dl cl pl row = Inr (Some dk, Some ck, Some pk) \<and>
           dk \<noteq> 0 \<and> ck \<noteq> 0 \<and> pk \<noteq> 0 \<and>
           f_date_key f = dk \<and> f_customer_key f = ck \<and> f_product_key f = pk \<and>
           py_int L (s_sale_id row) = Inr (f_sale_id f) \<and>
           py_int L (s_quantity row) = Inr (f_quantity f) \<and>
           py_float L (s_unit_price row) = Inr (f_unit_price f) \<and>
           py_float L (s_total_amount row) = Inr (f_total_amount f)"
  using assms
  by (auto simp: fact_record_def truthy_def split: sum.splits option.splits if_splits)

lemmas load_eval =
  lookup_keys_def fact_record_def load_fact_sales_def date_lookup_of_def customer_lookup_of_def
  product_lookup_of_def scenario_warehouse_def alice_def widget_def march_15_def sale_on_def
  to_datetime_def py_int_def py_float_def trunc_def truthy_def quiet_store_def

lemmas clean_eval =
  transform_sales_data_def remove_duplicates_def drop_duplicates_def sales_columns_def
  dropna_def to_numeric_def gt0_def sale_on_def to_datetime_def

lemma sale_on_clean: "transform_sales_data L [sale_on y m d] = Inr [sale_on y m d]"
  by (simp add: clean_eval)

text \<open>
  C1, at a warehouse whose customer row has the surrogate key 0: the three lookups of
  the sale all hit (date key 1, customer key 0, product key 1), yet the row is counted
  as skipped and no fact record is written.
\<close>

theorem load_fact_sales_skips_resolved_key_zero:
  "lookup_keys no_parse (date_lookup_of (dim_date (scenario_warehouse 1 0 1)))
     (customer_lookup_of (dim_customer (scenario_warehouse 1 0 1)))
     (product_lookup_of (dim_product (scenario_warehouse 1 0 1))) (sale_on 2024 3 15)
     = Inr (Some 1, Some 0, Some 1) \<and>
   load_fact_sales (quiet_store 0) no_parse (scenario_warehouse 1 0 1) [sale_on 2024 3 15]
     = Inr (scenario_warehouse 1 0 1, 1) \<and>
   fact_sales (scenario_warehouse 1 0 1) = []"
  by (simp add: load_eval)

text \<open>
  C10: when all three lookups of a row succeed, the row is skipped exactly when one of
  the resolved keys is 0; and there are a warehouse and a cleaned sales record whose
  three lookups succeed and which is skipped (one skipped row, the warehouse unchanged).
\<close>

theorem zero_key_skipped:
  "(lookup_keys L date_lookup customer_lookup product_lookup row = Inr (Some dk, Some ck, Some pk) \<longrightarrow>
      (fact_record L date_lookup customer_lookup product_lookup row = Inr None)
        = (dk = 0 \<or> ck = 0 \<or> pk = 0)) \<and>
   (\<exists>W raw row dk ck pk.
      transform_sales_data no_parse [raw] = Inr [row] \<and>
      lookup_keys no_parse (date_lookup_of (dim_date W)) (customer_lookup_of (dim_customer W))
        (product_lookup_of (dim_product W)) row = Inr (Some dk, Some ck, Some pk) \<and>
      load_fact_sales (quiet_store 0) no_parse W [row] = Inr (W, 1))"
proof (intro conjI impI)
  assume "lookup_keys L date_lookup customer_lookup product_lookup row = Inr (Some dk, Some ck, Some pk)"
  then show "(fact_record L date_lookup customer_lookup product_lookup row = Inr None)
        = (dk = 0 \<or> ck = 0 \<or> pk = 0)"
    by (rule fact_record_zero)
next
  have "transform_sales_data no_parse [sale_on 2024 3 15] = Inr [sale_on 2024 3 15]"
    by (rule sale_on_clean)
  moreover
  have "lookup_keys no_parse (date_lookup_of (dim_date (scenario_warehouse 0 7 3)))
          (customer_lookup_of (dim_customer (scenario_warehouse 0 7 3)))
          (product_lookup_of (dim_product (scenario_warehouse 0 7 3))) (sale_on 2024 3 15)
        = Inr (Some 0, Some 7, Some 3)"
    by (simp add: load_eval)
  moreover
  have "load_fact_sales (quiet_store 0) no_parse (scenario_warehouse 0 7 3) [sale_on 2024 3 15]
        = Inr (scenario_warehouse 0 7 3, 1)"
    by (simp add: load_eval)
  ultimately show "\<exists>W raw row dk ck pk.
      transform_sales_data no_parse [raw] = Inr [row] \<and>
      lookup_keys no_parse (date_lookup_of (dim_date W)) (customer_lookup_of (dim_customer W))
        (product_lookup_of (dim_product W)) row = Inr (Some dk, Some ck, Some pk) \<and>
      load_fact_sales (quiet_store 0) no_parse W [row] = Inr (W, 1)"
    by blast
qed

text \<open>Product key 0 with the date and customer keys 5 and 7.\<close>

theorem zero_key_skipped_witness:
  "lookup_keys no_parse (date_lookup_of [march_15 5]) (customer_lookup_of [alice 7])
     (product_lookup_of [widget 0]) (sale_on 2024 3 15) = Inr (Some 5, Some 7, Some 0) \<and>
   fact_record no_parse (date_lookup_of [march_15 5]) (customer_lookup_of [alice 7])
     (product_lookup_of [widget 0]) (sale_on 2024 3 15) = Inr None"
proof -
  have keys: "lookup_keys no_parse (date_lookup_of [march_15 5]) (customer_lookup_of [alice 7])
     (product_lookup_of [widget 0]) (sale_on 2024 3 15) = Inr (Some 5, Some 7, Some 0)"
    by (simp add: load_eval)
  from zero_key_skipped [of no_parse "date_lookup_of [march_15 5]" "customer_lookup_of [alice 7]"
      "product_lookup_of [widget 0]" "sale_on 2024 3 15" 5 7 0]
  have "lookup_keys no_parse (date_lookup_of [march_15 5]) (customer_lookup_of [alice 7])
          (product_lookup_of [widget 0]) (sale_on 2024 3 15) = Inr (Some 5, Some 7, Some 0) \<longrightarrow>
        (fact_record no_parse (date_lookup_of [march_15 5]) (customer_lookup_of [alice 7])
          (product_lookup_of [widget 0]) (sale_on 2024 3 15) = Inr None)
          = ((5::int) = 0 \<or> (7::int) = 0 \<or> (0::int) = 0)"
    by (elim conjE)
  with keys show ?thesis by simp
qed

section \<open>Cleaning the product records\<close>

lemma fillna_to_numeric: "\<exists>q. fillna (Num 0) (to_numeric L c) = Num q"
  by (auto simp: fillna_def to_numeric_def split: cell.splits option.splits)

lemma transform_products_data_origin:
  assumes "r \<in> set (transform_products_data L products_df)"
  shows "\<exists>r0 \<in> set products_df.
           p_product_id r0 \<noteq> NaN \<and> p_product_name r0 \<noteq> NaN \<and> p_category r0 \<noteq> NaN \<and>
           p_subcategory r0 \<noteq> NaN \<and> p_unit_cost r0 \<noteq> NaN \<and>
           r = r0\<lparr>p_product_id := astype_int (to_numeric L (p_product_id r0)),
                   p_unit_cost := fillna (Num 0) (to_numeric L (p_unit_cost r0))\<rparr>"
proof -
  let ?d = "remove_duplicates products_df p_product_id"
  have sub: "set ?d \<subseteq> set products_df"
    by (simp add: remove_duplicates_def drop_duplicates_def drop_dups_subset)
  from assms obtain r0 where r0: "r0 \<in> set ?d"
    and nn: "\<forall>c \<in> set (map fst product_columns). c r0 \<noteq> NaN"
    and r: "r = r0\<lparr>p_product_id := astype_int (to_numeric L (p_product_id r0)),
                   p_unit_cost := fillna (Num 0) (to_numeric L (p_unit_cost r0))\<rparr>"
    by (auto simp: transform_products_data_def Let_def dropna_def)
  from nn have "p_product_id r0 \<noteq> NaN \<and> p_product_name r0 \<noteq> NaN \<and> p_category r0 \<noteq> NaN \<and>
           p_subcategory r0 \<noteq> NaN \<and> p_unit_cost r0 \<noteq> NaN"
    by (simp add: product_columns_def)
  with r0 sub r show ?thesis by blast
qed

lemmas product_eval =
  transform_products_data_def remove_duplicates_def drop_duplicates_def product_columns_def
  dropna_def to_numeric_def fillna_def astype_int_def trunc_def widget_costing_def no_parse_def

text \<open>
  C2 fails on the code: a product whose unit cost is absent is not retained (the cleaned
  set is empty), and a product with the unit cost -2.5 keeps that negative cost.
\<close>

theorem absent_unit_cost_dropped_negative_kept:
  "transform_products_data no_parse [widget_costing NaN] = [] \<and>
   transform_products_data no_parse [widget_costing (Num (- 5 / 2))]
     = [widget_costing (Num (- 5 / 2))]"
  by (simp add: product_eval)

text \<open>
  C2 as amended: every record of the cleaned product set has a numeric unit cost, and it
  comes from an input record with no missing field (so a record whose unit cost is absent
  is dropped): its unit cost is that record's unit cost converted to a number, and 0 when
  the value is present but not numeric.  A negative cost is kept as it is.
\<close>

theorem cleaned_unit_cost_numeric:
  assumes "r \<in> set (transform_products_data L products_df)"
  shows "(\<exists>q. p_unit_cost r = Num q) \<and>
         (\<exists>r0 \<in> set products_df.
            p_product_id r0 \<noteq> NaN \<and> p_product_name r0 \<noteq> NaN \<and> p_category r0 \<noteq> NaN \<and>
            p_subcategory r0 \<noteq> NaN \<and> p_unit_cost r0 \<noteq> NaN \<and>
            p_product_name r = p_product_name r0 \<and> p_category r = p_category r0 \<and>
            p_subcategory r = p_subcategory r0 \<and>
            p_unit_cost r = (case to_numeric L (p_unit_cost r0) of NaN \<Rightarrow> Num 0 | c \<Rightarrow> c))"
proof -
  from transform_products_data_origin [OF assms] obtain r0 where r0: "r0 \<in> set products_df"
    and nn: "p_product_id r0 \<noteq> NaN \<and> p_product_name r0 \<noteq> NaN \<and> p_category r0 \<noteq> NaN \<and>
           p_subcategory r0 \<noteq> NaN \<and> p_unit_cost r0 \<noteq> NaN"
    and r: "r = r0\<lparr>p_product_id := astype_int (to_numeric L (p_product_id r0)),
                   p_unit_cost := fillna (Num 0) (to_numeric L (p_unit_cost r0))\<rparr>"
    by blast
  from r have cost: "p_unit_cost r = fillna (Num 0) (to_numeric L (p_unit_cost r0))" by simp
  have "\<exists>q. p_unit_cost r = Num q" unfolding cost by (rule fillna_to_numeric)
  moreover have "p_unit_cost r = (case to_numeric L (p_unit_cost r0) of NaN \<Rightarrow> Num 0 | c \<Rightarrow> c)"
    unfolding cost by (simp add: fillna_def split: cell.splits)
  moreover from r have "p_product_name r = p_product_name r0 \<and> p_category r = p_category r0 \<and>
            p_subcategory r = p_subcategory r0" by simp
  ultimately show ?thesis using r0 nn by blast
qed

text \<open>A unit cost "n/a" does not parse and becomes 0.\<close>

theorem cleaned_unit_cost_numeric_witness:
  "widget_costing (Num 0) \<in> set (transform_products_data no_parse [widget_costing (Str ''n/a'')]) \<and>
   to_numeric no_parse (Str ''n/a'') = NaN \<and>
   (\<exists>q. p_unit_cost (widget_costing (Num 0)) = Num q)"
proof -
  have mem: "widget_costing (Num 0)
      \<in> set (transform_products_data no_parse [widget_costing (Str ''n/a'')])"
    by (simp add: product_eval)
  have nan: "to_numeric no_parse (Str ''n/a'') = NaN" by (simp add: to_numeric_def no_parse_def)
  from cleaned_unit_cost_numeric [OF mem]
  have "\<exists>q. p_unit_cost (widget_costing (Num 0)) = Num q" by (elim conjE)
  with mem nan show ?thesis by (intro conjI)
qed

section \<open>Cleaning the sales records\<close>

lemma to_datetime_column_rows:
  "to_datetime_column L df = Inr df' \<Longrightarrow> r \<in> set df' \<Longrightarrow>
     \<exists>r0 \<in> set df. \<exists>d. to_datetime L (s_sale_date r0) = Inr d \<and> r = r0\<lparr>s_sale_date := d\<rparr>"
  by (induction df arbitrary: df') (auto split: sum.splits)

lemma gt0_Num: "gt0 c \<Longrightarrow> \<exists>q. c = Num q \<and> 0 < q"
  by (cases c) (simp_all add: gt0_def)

lemma transform_sales_data_origin:
  assumes "transform_sales_data L sales_df = Inr cleaned" and "r \<in> set cleaned"
  shows "\<exists>r0 \<in> set sales_df. \<exists>d.
           to_datetime L (s_sale_date r0) = Inr d \<and>
           r = r0\<lparr>s_sale_date := d, s_quantity := to_numeric L (s_quantity r0),
                   s_unit_price := to_numeric L (s_unit_price r0),
                   s_total_amount := to_numeric L (s_total_amount r0)\<rparr> \<and>
           gt0 (s_quantity r) \<and> gt0 (s_unit_price r) \<and> gt0 (s_total_amount r)"
proof -
  let ?d = "handle_missing_values sales_columns (remove_duplicates sales_df s_sale_id) Drop"
  have sub: "set ?d \<subseteq> set sales_df"
    using drop_dups_subset [of s_sale_id "[]" sales_df]
    by (auto simp: remove_duplicates_def drop_duplicates_def dropna_def)
  from assms(1) obtain df where df: "to_datetime_column L ?d = Inr df"
    and cl: "cleaned = filter (\<lambda>r. gt0 (s_quantity r) \<and> gt0 (s_unit_price r) \<and> gt0 (s_total_amount r))
        (dropna [s_quantity, s_unit_price, s_total_amount]
          (map (s_total_amount_update (to_numeric L) \<circ> s_unit_price_update (to_numeric L) \<circ>
                s_quantity_update (to_numeric L)) df))"
    by (auto simp: transform_sales_data_def Let_def split: sum.splits)
  from cl assms(2) obtain r1 where r1: "r1 \<in> set df"
    and r: "r = s_total_amount_update (to_numeric L)
                 (s_unit_price_update (to_numeric L) (s_quantity_update (to_numeric L) r1))"
    and pos: "gt0 (s_quantity r) \<and> gt0 (s_unit_price r) \<and> gt0 (s_total_amount r)"
    by (auto simp: dropna_def)
  from to_datetime_column_rows [OF df r1] obtain r0 d where r0: "r0 \<in> set ?d"
    and d: "to_datetime L (s_sale_date r0) = Inr d" and r1': "r1 = r0\<lparr>s_sale_date := d\<rparr>"
    by blast
  from r r1' have "r = r0\<lparr>s_sale_date := d, s_quantity := to_numeric L (s_quantity r0),
                   s_unit_price := to_numeric L (s_unit_price r0),
                   s_total_amount := to_numeric L (s_total_amount r0)\<rparr>"
    by simp
  with r0 sub d pos show ?thesis by blast
qed

lemma fact_records_origin:
  "fact_records L dl cl pl rows (records, skipped) = Inr (records', skipped') \<Longrightarrow>
     f \<in> set records' \<Longrightarrow>
     f \<in> set records \<or> (\<exists>r \<in> set rows. fact_record L dl cl pl r = Inr (Some f))"
proof (induction rows arbitrary: records skipped)
  case Nil
  then show ?case by simp
next
  case (Cons row rows)
  show ?case
  proof (cases "fact_record L dl cl pl row")
    case (Inl e)
    with Cons.prems show ?thesis by simp
  next
    case (Inr res)
    show ?thesis
    proof (cases res)
      case None
      with Inr Cons.prems Cons.IH [of records "skipped + 1"] show ?thesis by auto
    next
      case (Some g)
      with Inr Cons.prems Cons.IH [of "records @ [g]" skipped] show ?thesis by auto
    qed
  qed
qed

text \<open>
  C6: every row of the cleaned sales set has numeric quantity, unit price and total
  amount, all above 0, and is the converted form of an input row (its three measures
  are that row's measures converted to numbers).  So the converted form of an input row
  whose quantity is 0, whose unit price is negative or whose total amount is not numeric
  is no row of the cleaned set; and every fact record built from the cleaned set is the
  record of one of its rows.
\<close>

theorem sales_quality_filter:
  assumes "transform_sales_data L sales_df = Inr cleaned"
  shows "(\<forall>r \<in> set cleaned. \<exists>q p a.
            s_quantity r = Num q \<and> 0 < q \<and> s_unit_price r = Num p \<and> 0 < p \<and>
            s_total_amount r = Num a \<and> 0 < a) \<and>
         (\<forall>r \<in> set cleaned. \<exists>r0 \<in> set sales_df.
            s_sale_id r = s_sale_id r0 \<and> s_customer_id r = s_customer_id r0 \<and>
            s_product_id r = s_product_id r0 \<and>
            to_datetime L (s_sale_date r0) = Inr (s_sale_date r) \<and>
            s_quantity r = to_numeric L (s_quantity r0) \<and>
            s_unit_price r = to_numeric L (s_unit_price r0) \<and>
            s_total_amount r = to_numeric L (s_total_amount r0)) \<and>
         (\<forall>(r0::sales_row) d. to_numeric L (s_quantity r0) = Num 0 \<or>
                  (\<exists>p. to_numeric L (s_unit_price r0) = Num p \<and> p < 0) \<or>
                  to_numeric L (s_total_amount r0) = NaN \<longrightarrow>
              r0\<lparr>s_sale_date := d, s_quantity := to_numeric L (s_quantity r0),
                   s_unit_price := to_numeric L (s_unit_price r0),
                   s_total_amount := to_numeric L (s_total_amount r0)\<rparr> \<notin> set cleaned) \<and>
         (\<forall>dl cl pl records skipped.
            fact_records L dl cl pl cleaned ([], 0) = Inr (records, skipped) \<longrightarrow>
            (\<forall>f \<in> set records. \<exists>r \<in> set cleaned. fact_record L dl cl pl r = Inr (Some f)))"
proof (intro conjI ballI allI impI)
  fix r assume r: "r \<in> set cleaned"
  from transform_sales_data_origin [OF assms r] gt0_Num
  show "\<exists>q p a. s_quantity r = Num q \<and> 0 < q \<and> s_unit_price r = Num p \<and> 0 < p \<and>
            s_total_amount r = Num a \<and> 0 < a"
    by blast
next
  fix r assume r: "r \<in> set cleaned"
  from transform_sales_data_origin [OF assms r] obtain r0 d where r0: "r0 \<in> set sales_df"
    and d: "to_datetime L (s_sale_date r0) = Inr d"
    and eq: "r = r0\<lparr>s_sale_date := d, s_quantity := to_numeric L (s_quantity r0),
                   s_unit_price := to_numeric L (s_unit_price r0),
                   s_total_amount := to_numeric L (s_total_amount r0)\<rparr>"
    by blast
  from eq d have "s_sale_id r = s_sale_id r0 \<and> s_customer_id r = s_customer_id r0 \<and>
            s_product_id r = s_product_id r0 \<and>
            to_datetime L (s_sale_date r0) = Inr (s_sale_date r) \<and>
            s_quantity r = to_numeric L (s_quantity r0) \<and>
            s_unit_price r = to_numeric L (s_unit_price r0) \<and>
            s_total_amount r = to_numeric L (s_total_amount r0)"
    by simp
  with r0 show "\<exists>r0 \<in> set sales_df.
            s_sale_id r = s_sale_id r0 \<and> s_customer_id r = s_customer_id r0 \<and>
            s_product_id r = s_product_id r0 \<and>
            to_datetime L (s_sale_date r0) = Inr (s_sale_date r) \<and>
            s_quantity r = to_numeric L (s_quantity r0) \<and>
            s_unit_price r = to_numeric L (s_unit_price r0) \<and>
            s_total_amount r = to_numeric L (s_total_amount r0)"
    by blast
next
  fix r0 :: sales_row and d
  let ?r = "r0\<lparr>s_sale_date := d, s_quantity := to_numeric L (s_quantity r0),
                   s_unit_price := to_numeric L (s_unit_price r0),
                   s_total_amount := to_numeric L (s_total_amount r0)\<rparr>"
  assume bad: "to_numeric L (s_quantity r0) = Num 0 \<or>
                  (\<exists>p. to_numeric L (s_unit_price r0) = Num p \<and> p < 0) \<or>
                  to_numeric L (s_total_amount r0) = NaN"
  show "?r \<notin> set cleaned"
  proof
    assume "?r \<in> set cleaned"
    from transform_sales_data_origin [OF assms this]
    have "gt0 (s_quantity ?r) \<and> gt0 (s_unit_price ?r) \<and> gt0 (s_total_amount ?r)" by blast
    then have "gt0 (to_numeric L (s_quantity r0)) \<and> gt0 (to_numeric L (s_unit_price r0)) \<and>
               gt0 (to_numeric L (s_total_amount r0))" by simp
    with bad show False by (auto simp: gt0_def)
  qed
next
  fix dl cl pl records skipped f
  assume "fact_records L dl cl pl cleaned ([], 0) = Inr (records, skipped)" and "f \<in> set records"
  from fact_records_origin [OF this]
  show "\<exists>r \<in> set cleaned. fact_record L dl cl pl r = Inr (Some f)" by simp
qed

lemmas raw_eval =
  transform_sales_data_def remove_duplicates_def drop_duplicates_def sales_columns_def
  dropna_def to_numeric_def gt0_def sale_on_def raw_sale_def scenario_lib_def to_datetime_def

lemma raw_sales_cleaned:
  "transform_sales_data scenario_lib [raw_sale (Num 100) (Num 3), raw_sale (Num 101) (Num 0)]
     = Inr [sale_on 2024 3 15]"
  by (simp add: raw_eval)

text \<open>Two raw sales, the second with quantity 0: only the first is in the cleaned set.\<close>

theorem sales_quality_filter_witness:
  "transform_sales_data scenario_lib [raw_sale (Num 100) (Num 3), raw_sale (Num 101) (Num 0)]
     = Inr [sale_on 2024 3 15] \<and>
   sale_on 2024 3 15 \<in> set [sale_on 2024 3 15] \<and>
   (\<exists>q p a. s_quantity (sale_on 2024 3 15) = Num q \<and> 0 < q \<and>
      s_unit_price (sale_on 2024 3 15) = Num p \<and> 0 < p \<and>
      s_total_amount (sale_on 2024 3 15) = Num a \<and> 0 < a) \<and>
   to_numeric scenario_lib (s_quantity (raw_sale (Num 101) (Num 0))) = Num 0"
proof -
  note T = sales_quality_filter [OF raw_sales_cleaned]
  from T have "\<forall>r \<in> set [sale_on 2024 3 15]. \<exists>q p a.
            s_quantity r = Num q \<and> 0 < q \<and> s_unit_price r = Num p \<and> 0 < p \<and>
            s_total_amount r = Num a \<and> 0 < a"
    by (elim conjE)
  then have "\<exists>q p a. s_quantity (sale_on 2024 3 15) = Num q \<and> 0 < q \<and>
      s_unit_price (sale_on 2024 3 15) = Num p \<and> 0 < p \<and>
      s_total_amount (sale_on 2024 3 15) = Num a \<and> 0 < a"
    by simp
  moreover have "to_numeric scenario_lib (s_quantity (raw_sale (Num 101) (Num 0))) = Num 0"
    by (simp add: to_numeric_def raw_sale_def)
  ultimately show ?thesis using raw_sales_cleaned by simp
qed

section \<open>The fact upsert\<close>

lemma insert_on_conflict_nth:
  assumes "\<exists>row \<in> set tbl. target row = excluded v" and "i < length tbl"
  shows "insert_on_conflict target excluded do_update new_row tbl v ! i =
           (if target (tbl ! i) = excluded v then do_update (tbl ! i) v else tbl ! i)"
  using assms by (simp add: insert_on_conflict_def)

lemma insert_on_conflict_length:
  assumes "\<exists>row \<in> set tbl. target row = excluded v"
  shows "length (insert_on_conflict target excluded do_update new_row tbl v) = length tbl"
  using assms by (simp add: insert_on_conflict_def)

text \<open>
  C8: when the fact table holds a row with the sale id of the new values, the upsert
  adds no row and leaves \<open>sale_id\<close>, \<open>date_key\<close>, \<open>customer_key\<close> and \<open>product_key\<close>
  of every row as they were; the conflicting row gets the new \<open>quantity\<close>,
  \<open>unit_price\<close> and \<open>total_amount\<close>, and every other row is unchanged.
\<close>

theorem fact_upsert_keeps_linkage:
  assumes "\<exists>row \<in> set tbl. f_sale_id row = f_sale_id v"
  shows "length (upsert_fact_sales tbl v) = length tbl \<and>
         (\<forall>i < length tbl.
            f_sale_id (upsert_fact_sales tbl v ! i) = f_sale_id (tbl ! i) \<and>
            f_date_key (upsert_fact_sales tbl v ! i) = f_date_key (tbl ! i) \<and>
            f_customer_key (upsert_fact_sales tbl v ! i) = f_customer_key (tbl ! i) \<and>
            f_product_key (upsert_fact_sales tbl v ! i) = f_product_key (tbl ! i) \<and>
            (if f_sale_id (tbl ! i) = f_sale_id v
             then f_quantity (upsert_fact_sales tbl v ! i) = f_quantity v \<and>
                  f_unit_price (upsert_fact_sales tbl v ! i) = f_unit_price v \<and>
                  f_total_amount (upsert_fact_sales tbl v ! i) = f_total_amount v
             else upsert_fact_sales tbl v ! i = tbl ! i))"
  using assms
  by (auto simp: upsert_fact_sales_def insert_on_conflict_nth insert_on_conflict_length)

text \<open>
  Sale 100 is stored with the keys 1, 1, 1 and quantity 3; new values with the keys
  2, 2, 2 and quantity 5 change the measures only.
\<close>

theorem fact_upsert_keeps_linkage_witness:
  "(\<exists>row \<in> set [fact_100 1 1 1 3]. f_sale_id row = f_sale_id (fact_100 2 2 2 5)) \<and>
   upsert_fact_sales [fact_100 1 1 1 3] (fact_100 2 2 2 5) ! 0 = fact_100 1 1 1 5 \<and>
   f_date_key (upsert_fact_sales [fact_100 1 1 1 3] (fact_100 2 2 2 5) ! 0)
     = f_date_key ([fact_100 1 1 1 3] ! 0)"
proof -
  have c: "\<exists>row \<in> set [fact_100 1 1 1 3]. f_sale_id row = f_sale_id (fact_100 2 2 2 5)"
    by (simp add: fact_100_def)
  have e: "upsert_fact_sales [fact_100 1 1 1 3] (fact_100 2 2 2 5) ! 0 = fact_100 1 1 1 5"
    by (simp add: fact_100_def upsert_fact_sales_def insert_on_conflict_def)
  from fact_upsert_keeps_linkage [OF c]
  have "\<forall>i < length [fact_100 1 1 1 3].
            f_sale_id (upsert_fact_sales [fact_100 1 1 1 3] (fact_100 2 2 2 5) ! i) = f_sale_id ([fact_100 1 1 1 3] ! i) \<and>
            f_date_key (upsert_fact_sales [fact_100 1 1 1 3] (fact_100 2 2 2 5) ! i) = f_date_key ([fact_100 1 1 1 3] ! i) \<and>
            f_customer_key (upsert_fact_sales [fact_100 1 1 1 3] (fact_100 2 2 2 5) ! i) = f_customer_key ([fact_100 1 1 1 3] ! i) \<and>
            f_product_key (upsert_fact_sales [fact_100 1 1 1 3] (fact_100 2 2 2 5) ! i) = f_product_key ([fact_100 1 1 1 3] ! i) \<and>
            (if f_sale_id ([fact_100 1 1 1 3] ! i) = f_sale_id (fact_100 2 2 2 5)
             then f_quantity (upsert_fact_sales [fact_100 1 1 1 3] (fact_100 2 2 2 5) ! i) = f_quantity (fact_100 2 2 2 5) \<and>
                  f_unit_price (upsert_fact_sales [fact_100 1 1 1 3] (fact_100 2 2 2 5) ! i) = f_unit_price (fact_100 2 2 2 5) \<and>
                  f_total_amount (upsert_fact_sales [fact_100 1 1 1 3] (fact_100 2 2 2 5) ! i) = f_total_amount (fact_100 2 2 2 5)
             else upsert_fact_sales [fact_100 1 1 1 3] (fact_100 2 2 2 5) ! i = [fact_100 1 1 1 3] ! i)"
    by (elim conjE)
  then have "f_date_key (upsert_fact_sales [fact_100 1 1 1 3] (fact_100 2 2 2 5) ! 0)
     = f_date_key ([fact_100 1 1 1 3] ! 0)"
    by simp
  with c e show ?thesis by (intro conjI)
qed

section \<open>Running a batch twice\<close>

lemma conflict_step_targets:
  assumes "\<And>row v. target (upd row v) = target row"
  shows "map target (map (\<lambda>row. if target row = k then upd row v else row) tbl) = map target tbl"
  by (induction tbl) (simp_all add: assms)

lemma insert_on_conflict_targets:
  assumes "\<And>row v. target (upd row v) = target row" and "target (new v) = excl v"
  shows "target ` set (insert_on_conflict target excl upd new tbl v)
           = insert (excl v) (target ` set tbl)"
proof (cases "\<exists>row \<in> set tbl. target row = excl v")
  case True
  have "set (map target (insert_on_conflict target excl upd new tbl v)) = set (map target tbl)"
    using True by (simp only: insert_on_conflict_def if_True conflict_step_targets [where target = target and upd = upd, OF assms(1)])
  moreover from True have "excl v \<in> target ` set tbl" by force
  ultimately show ?thesis by auto
next
  case False
  then show ?thesis by (simp add: insert_on_conflict_def assms(2))
qed

lemma execute_values_targets:
  assumes "\<And>row v. target (upd row v) = target row" and "\<And>s v. target (new s v) = excl v"
  shows "target ` set (fst (execute_values (\<lambda>s. insert_on_conflict target excl upd (new s))
            (tbl, seq) vs)) = target ` set tbl \<union> excl ` set vs"
proof (induction vs arbitrary: tbl seq)
  case Nil
  show ?case by simp
next
  case (Cons v vs)
  have "target ` set (insert_on_conflict target excl upd (new seq) tbl v)
          = insert (excl v) (target ` set tbl)"
    by (rule insert_on_conflict_targets) (simp_all add: assms)
  with Cons [of "insert_on_conflict target excl upd (new seq) tbl v" "seq + 1"]
  show ?case by simp
qed

lemma fold_conflict_target:
  assumes "\<And>row v. target (upd row v) = target row"
  shows "target (fold (\<lambda>v row. if target row = excl v then upd row v else row) vs row)
           = target row"
  by (induction vs arbitrary: row) (simp_all add: assms)

lemma fold_conflict_cases:
  assumes "\<And>row v. target (upd row v) = target row"
    and "\<And>row w v. upd (upd row w) v = upd row v"
  shows "fold (\<lambda>v row. if target row = excl v then upd row v else row) vs row = row \<or>
         (\<exists>w. fold (\<lambda>v row. if target row = excl v then upd row v else row) vs row = upd row w)"
proof (induction vs arbitrary: row)
  case Nil
  show ?case by simp
next
  case (Cons v vs)
  show ?case
  proof (cases "target row = excl v")
    case True
    from Cons [of "upd row v"] show ?thesis using True by (auto simp: assms(2))
  next
    case False
    with Cons [of row] show ?thesis by simp
  qed
qed

lemma execute_values_all_conflicts:
  assumes "\<And>row v. target (upd row v) = target row"
    and "excl ` set vs \<subseteq> target ` set tbl"
  shows "fst (execute_values (\<lambda>s. insert_on_conflict target excl upd (new s)) (tbl, seq) vs)
           = map (fold (\<lambda>v row. if target row = excl v then upd row v else row) vs) tbl"
  using assms(2)
proof (induction vs arbitrary: tbl seq)
  case Nil
  show ?case by simp
next
  case (Cons v vs)
  let ?step = "\<lambda>row. if target row = excl v then upd row v else row"
  from Cons.prems have hit: "\<exists>row \<in> set tbl. target row = excl v" by auto
  then have one: "insert_on_conflict target excl upd (new seq) tbl v = map ?step tbl"
    by (simp add: insert_on_conflict_def)
  have "set (map target (map ?step tbl)) = set (map target tbl)"
    by (simp only: conflict_step_targets [where target = target and upd = upd, OF assms(1)])
  then have "target ` set (map ?step tbl) = target ` set tbl"
    by (simp only: set_map)
  with Cons.prems have "excl ` set vs \<subseteq> target ` set (map ?step tbl)" by simp
  from Cons.IH [OF this, of "seq + 1"] one show ?case by (simp add: comp_def)
qed

lemma execute_values_settled:
  assumes t1: "\<And>row v. target (upd1 row v) = target row"
    and n1: "\<And>s v. target (new1 s v) = excl v"
    and t2: "\<And>row v. target (upd2 row v) = target row"
    and absorb: "\<And>row w v. upd2 (upd2 row w) v = upd2 row v"
    and again: "\<And>row v. blank (upd2 (upd1 row v) v) = blank (upd1 row v)"
    and fresh: "\<And>s v. blank (upd2 (new1 s v) v) = blank (new1 s v)"
    and inv: "\<forall>row \<in> set tbl.
        blank (fold (\<lambda>v row. if target row = excl v then upd2 row v else row) ws row) = blank row"
  shows "\<forall>row \<in> set (fst (execute_values (\<lambda>s. insert_on_conflict target excl upd1 (new1 s))
            (tbl, seq) vs)).
          blank (fold (\<lambda>v row. if target row = excl v then upd2 row v else row) (ws @ vs) row)
            = blank row"
  using inv
proof (induction vs arbitrary: tbl seq ws)
  case Nil
  then show ?case by simp
next
  case (Cons v vs)
  let ?ap = "\<lambda>ws. fold (\<lambda>v row. if target row = excl v then upd2 row v else row) ws"
  let ?tbl' = "insert_on_conflict target excl upd1 (new1 seq) tbl v"
  have redo: "blank (upd2 (?ap ws x) v) = blank (upd2 x v)" for x
    using fold_conflict_cases [of target upd2 excl ws x] by (auto simp: t2 absorb)
  have "\<forall>row \<in> set ?tbl'. blank (?ap (ws @ [v]) row) = blank row"
  proof
    fix row assume row: "row \<in> set ?tbl'"
    have tg: "target (?ap ws row) = target row"
      by (rule fold_conflict_target) (rule t2)
    from row consider
        (upd) old where "old \<in> set tbl" "target old = excl v" "row = upd1 old v"
      | (keep) "row \<in> set tbl" "target row \<noteq> excl v"
      | (new) "row = new1 seq v"
      by (auto simp: insert_on_conflict_def split: if_splits)
    then show "blank (?ap (ws @ [v]) row) = blank row"
    proof cases
      case upd
      then have "target row = excl v" by (simp add: t1)
      with tg have "?ap (ws @ [v]) row = upd2 (?ap ws row) v" by simp
      with redo [of row] upd(3) again [of old v] show ?thesis by simp
    next
      case keep
      with tg have "?ap (ws @ [v]) row = ?ap ws row" by simp
      with Cons.prems keep(1) show ?thesis by simp
    next
      case new
      then have "target row = excl v" by (simp add: n1)
      with tg have "?ap (ws @ [v]) row = upd2 (?ap ws row) v" by simp
      with redo [of row] new fresh [of seq v] show ?thesis by simp
    qed
  qed
  from Cons.IH [OF this, of "seq + 1"] show ?case by simp
qed

lemma execute_values_twice:
  assumes t1: "\<And>row v. target (upd1 row v) = target row"
    and n1: "\<And>s v. target (new1 s v) = excl v"
    and t2: "\<And>row v. target (upd2 row v) = target row"
    and absorb: "\<And>row w v. upd2 (upd2 row w) v = upd2 row v"
    and again: "\<And>row v. blank (upd2 (upd1 row v) v) = blank (upd1 row v)"
    and fresh: "\<And>s v. blank (upd2 (new1 s v) v) = blank (new1 s v)"
  shows "map blank (fst (execute_values (\<lambda>s. insert_on_conflict target excl upd2 (new2 s))
            (fst (execute_values (\<lambda>s. insert_on_conflict target excl upd1 (new1 s)) (tbl, seq) vs),
             seq') vs))
         = map blank (fst (execute_values (\<lambda>s. insert_on_conflict target excl upd1 (new1 s))
            (tbl, seq) vs))"
proof -
  let ?T1 = "fst (execute_values (\<lambda>s. insert_on_conflict target excl upd1 (new1 s)) (tbl, seq) vs)"
  have "target ` set ?T1 = target ` set tbl \<union> excl ` set vs"
    by (rule execute_values_targets) (simp_all add: t1 n1)
  then have "excl ` set vs \<subseteq> target ` set ?T1" by simp
  then have run2: "fst (execute_values (\<lambda>s. insert_on_conflict target excl upd2 (new2 s)) (?T1, seq') vs)
           = map (fold (\<lambda>v row. if target row = excl v then upd2 row v else row) vs) ?T1"
    by (intro execute_values_all_conflicts t2)
  have "\<forall>row \<in> set ?T1.
          blank (fold (\<lambda>v row. if target row = excl v then upd2 row v else row) ([] @ vs) row)
            = blank row"
    by (rule execute_values_settled [where ?upd1.0 = upd1 and ?new1.0 = new1 and ?upd2.0 = upd2
          and blank = blank and target = target and excl = excl and ws = "[]",
          OF t1 n1 t2 absorb again fresh]) simp
  then show ?thesis unfolding run2 by simp
qed

section \<open>Running the pipeline twice\<close>

lemma customers_twice:
  "map (dc_updated_at_update (\<lambda>t. 0))
     (fst (execute_values (upsert_dim_customer now2)
        (fst (execute_values (upsert_dim_customer now1) (tbl, seq) vs), seq') vs))
   = map (dc_updated_at_update (\<lambda>t. 0))
       (fst (execute_values (upsert_dim_customer now1) (tbl, seq) vs))"
  using execute_values_twice [where blank = "dc_updated_at_update (\<lambda>t. 0)"
      and target = dc_customer_id and excl = c_customer_id
      and ?upd1.0 = "\<lambda>row excluded. row\<lparr>dc_customer_name := c_customer_name excluded,
                            dc_email := c_email excluded, dc_city := c_city excluded,
                            dc_country := c_country excluded, dc_updated_at := now1\<rparr>"
      and ?upd2.0 = "\<lambda>row excluded. row\<lparr>dc_customer_name := c_customer_name excluded,
                            dc_email := c_email excluded, dc_city := c_city excluded,
                            dc_country := c_country excluded, dc_updated_at := now2\<rparr>"
      and ?new1.0 = "\<lambda>seq v. \<lparr>dc_customer_key = seq, dc_customer_id = c_customer_id v,
              dc_customer_name = c_customer_name v, dc_email = c_email v,
              dc_city = c_city v, dc_country = c_country v, dc_updated_at = now1\<rparr>"
      and ?new2.0 = "\<lambda>seq v. \<lparr>dc_customer_key = seq, dc_customer_id = c_customer_id v,
              dc_customer_name = c_customer_name v, dc_email = c_email v,
              dc_city = c_city v, dc_country = c_country v, dc_updated_at = now2\<rparr>"
      and tbl = tbl and seq = seq and seq' = seq' and vs = vs]
  by (simp add: upsert_dim_customer_def [abs_def])

lemma products_twice:
  "map (dp_updated_at_update (\<lambda>t. 0))
     (fst (execute_values (upsert_dim_product now2)
        (fst (execute_values (upsert_dim_product now1) (tbl, seq) vs), seq') vs))
   = map (dp_updated_at_update (\<lambda>t. 0))
       (fst (execute_values (upsert_dim_product now1) (tbl, seq) vs))"
  using execute_values_twice [where blank = "dp_updated_at_update (\<lambda>t. 0)"
      and target = dp_product_id and excl = p_product_id
      and ?upd1.0 = "\<lambda>row excluded. row\<lparr>dp_product_name := p_product_name excluded,
                            dp_category := p_category excluded,
                            dp_subcategory := p_subcategory excluded,
                            dp_unit_cost := p_unit_cost excluded, dp_updated_at := now1\<rparr>"
      and ?upd2.0 = "\<lambda>row excluded. row\<lparr>dp_product_name := p_product_name excluded,
                            dp_category := p_category excluded,
                            dp_subcategory := p_subcategory excluded,
                            dp_unit_cost := p_unit_cost excluded, dp_updated_at := now2\<rparr>"
      and ?new1.0 = "\<lambda>seq v. \<lparr>dp_product_key = seq, dp_product_id = p_product_id v,
              dp_product_name = p_product_name v, dp_category = p_category v,
              dp_subcategory = p_subcategory v, dp_unit_cost = p_unit_cost v,
              dp_updated_at = now1\<rparr>"
      and ?new2.0 = "\<lambda>seq v. \<lparr>dp_product_key = seq, dp_product_id = p_product_id v,
              dp_product_name = p_product_name v, dp_category = p_category v,
              dp_subcategory = p_subcategory v, dp_unit_cost = p_unit_cost v,
              dp_updated_at = now2\<rparr>"
      and tbl = tbl and seq = seq and seq' = seq' and vs = vs]
  by (simp add: upsert_dim_product_def [abs_def])

lemma dates_twice:
  "fst (execute_values insert_dim_date
        (fst (execute_values insert_dim_date (tbl, seq) vs), seq') vs)
   = fst (execute_values insert_dim_date (tbl, seq) vs)"
  using execute_values_twice [where blank = "\<lambda>row. row" and target = "\<lambda>row. dd_sale_date (dt_values row)"
      and excl = dd_sale_date and ?upd1.0 = "\<lambda>row excluded. row" and ?upd2.0 = "\<lambda>row excluded. row"
      and ?new1.0 = "\<lambda>seq v. \<lparr>dt_date_key = seq, dt_values = v\<rparr>"
      and ?new2.0 = "\<lambda>seq v. \<lparr>dt_date_key = seq, dt_values = v\<rparr>"
      and tbl = tbl and seq = seq and seq' = seq' and vs = vs]
  by (simp add: insert_dim_date_def [abs_def])

lemma facts_twice:
  "fst (execute_values (\<lambda>seq. upsert_fact_sales)
        (fst (execute_values (\<lambda>seq. upsert_fact_sales) (tbl, seq) vs), seq') vs)
   = fst (execute_values (\<lambda>seq. upsert_fact_sales) (tbl, seq) vs)"
  using execute_values_twice [where blank = "\<lambda>row. row" and target = f_sale_id
      and excl = f_sale_id
      and ?upd1.0 = "\<lambda>row excluded. row\<lparr>f_quantity := f_quantity excluded,
                            f_unit_price := f_unit_price excluded,
                            f_total_amount := f_total_amount excluded\<rparr>"
      and ?upd2.0 = "\<lambda>row excluded. row\<lparr>f_quantity := f_quantity excluded,
                            f_unit_price := f_unit_price excluded,
                            f_total_amount := f_total_amount excluded\<rparr>"
      and ?new1.0 = "\<lambda>seq v. v" and ?new2.0 = "\<lambda>seq v. v"
      and tbl = tbl and seq = seq and seq' = seq' and vs = vs]
  by (simp add: upsert_fact_sales_def)

lemma customer_lookup_blank:
  assumes "map (dc_updated_at_update (\<lambda>t. 0)) T = map (dc_updated_at_update (\<lambda>t. 0)) T'"
  shows "customer_lookup_of T = customer_lookup_of T'"
proof -
  have "customer_lookup_of X
      = fold (\<lambda>row lookup. lookup(dc_customer_id row \<mapsto> dc_customer_key row))
          (map (dc_updated_at_update (\<lambda>t. 0)) X) Map.empty" for X
    by (simp add: customer_lookup_of_def fold_map comp_def)
  with assms show ?thesis by simp
qed

lemma product_lookup_blank:
  assumes "map (dp_updated_at_update (\<lambda>t. 0)) T = map (dp_updated_at_update (\<lambda>t. 0)) T'"
  shows "product_lookup_of T = product_lookup_of T'"
proof -
  have "product_lookup_of X
      = fold (\<lambda>row lookup. lookup(dp_product_id row \<mapsto> dp_product_key row))
          (map (dp_updated_at_update (\<lambda>t. 0)) X) Map.empty" for X
    by (simp add: product_lookup_of_def fold_map comp_def)
  with assms show ?thesis by simp
qed

lemma load_all_tables:
  assumes "load_all db L W s c p d = (W', r)"
  shows "dim_customer W' =
           (if raises db Dim_customer then dim_customer W
            else fst (execute_values (upsert_dim_customer (current_timestamp db Dim_customer))
                   (dim_customer W, customer_key_seq W) c))"
    and "dim_product W' =
           (if raises db Dim_customer \<or> raises db Dim_product then dim_product W
            else fst (execute_values (upsert_dim_product (current_timestamp db Dim_product))
                   (dim_product W, product_key_seq W) p))"
    and "dim_date W' =
           (if raises db Dim_customer \<or> raises db Dim_product \<or> raises db Dim_date
            then dim_date W
            else fst (execute_values insert_dim_date (dim_date W, date_key_seq W) d))"
    and "fact_sales W' =
           (if raises db Dim_customer \<or> raises db Dim_product \<or> raises db Dim_date
            then fact_sales W
            else (case fact_records L (date_lookup_of (dim_date W'))
                         (customer_lookup_of (dim_customer W'))
                         (product_lookup_of (dim_product W')) s ([], 0) of
                    Inl e \<Rightarrow> fact_sales W
                  | Inr (B, k) \<Rightarrow>
                      if raises db Fact_sales then fact_sales W
                      else fst (execute_values (\<lambda>seq. upsert_fact_sales) (fact_sales W, 0) B)))"
  using assms
  by (auto simp: load_all_def load_dim_customer_def load_dim_product_def load_dim_date_def
      load_fact_sales_def Let_def split: prod.splits sum.splits if_splits)

lemma load_all_twice:
  assumes again: "\<forall>t. raises db1 t \<longrightarrow> raises db2 t"
    and first: "load_all db1 L W0 s c p d = (W1, r1)"
    and second: "load_all db2 L W1 s c p d = (W2, r2)"
  shows "same_but_updated_at W2 W1"
proof -
  note A = load_all_tables [OF first] and B = load_all_tables [OF second]
  have cust: "map (dc_updated_at_update (\<lambda>t. 0)) (dim_customer W2)
                = map (dc_updated_at_update (\<lambda>t. 0)) (dim_customer W1)"
  proof (cases "raises db2 Dim_customer")
    case True
    with B(1) show ?thesis by simp
  next
    case False
    with again have "\<not> raises db1 Dim_customer" by blast
    with A(1) False B(1) show ?thesis by (simp add: customers_twice)
  qed
  have prod: "map (dp_updated_at_update (\<lambda>t. 0)) (dim_product W2)
                = map (dp_updated_at_update (\<lambda>t. 0)) (dim_product W1)"
  proof (cases "raises db2 Dim_customer \<or> raises db2 Dim_product")
    case True
    with B(2) show ?thesis by simp
  next
    case False
    with again have "\<not> (raises db1 Dim_customer \<or> raises db1 Dim_product)" by blast
    with A(2) False B(2) show ?thesis by (simp add: products_twice)
  qed
  have date: "dim_date W2 = dim_date W1"
  proof (cases "raises db2 Dim_customer \<or> raises db2 Dim_product \<or> raises db2 Dim_date")
    case True
    with B(3) show ?thesis by simp
  next
    case False
    with again
    have "\<not> (raises db1 Dim_customer \<or> raises db1 Dim_product \<or> raises db1 Dim_date)" by blast
    with A(3) False B(3) show ?thesis by (simp add: dates_twice)
  qed
  have fact: "fact_sales W2 = fact_sales W1"
  proof (cases "raises db2 Dim_customer \<or> raises db2 Dim_product \<or> raises db2 Dim_date")
    case True
    with B(4) show ?thesis by simp
  next
    case False
    with again
    have quiet: "\<not> (raises db1 Dim_customer \<or> raises db1 Dim_product \<or> raises db1 Dim_date)"
      by blast
    let ?recs = "fact_records L (date_lookup_of (dim_date W1))
                   (customer_lookup_of (dim_customer W1)) (product_lookup_of (dim_product W1))
                   s ([], 0)"
    have same: "fact_records L (date_lookup_of (dim_date W2))
                   (customer_lookup_of (dim_customer W2)) (product_lookup_of (dim_product W2))
                   s ([], 0) = ?recs"
      using customer_lookup_blank [OF cust] product_lookup_blank [OF prod] date by simp
    show ?thesis
    proof (cases ?recs)
      case (Inl e)
      with B(4) False same show ?thesis by simp
    next
      case (Inr res)
      obtain records k where res: "res = (records, k)" by (cases res)
      show ?thesis
      proof (cases "raises db2 Fact_sales")
        case True
        with B(4) False same Inr res show ?thesis by simp
      next
        case no2: False
        with again have no1: "\<not> raises db1 Fact_sales" by blast
        from A(4) quiet Inr res no1
        have W1: "fact_sales W1
            = fst (execute_values (\<lambda>seq. upsert_fact_sales) (fact_sales W0, 0) records)"
          by simp
        from B(4) False same Inr res no2
        have "fact_sales W2
            = fst (execute_values (\<lambda>seq. upsert_fact_sales) (fact_sales W1, 0) records)"
          by simp
        then show ?thesis unfolding W1 by (simp add: facts_twice)
      qed
    qed
  qed
  from cust prod date fact show ?thesis by (simp add: same_but_updated_at_def)
qed

lemma same_but_updated_at_refl: "same_but_updated_at W W"
  by (simp add: same_but_updated_at_def)

lemma same_but_updated_at_lengths:
  assumes "same_but_updated_at W W'"
  shows "length (dim_customer W) = length (dim_customer W') \<and>
         length (dim_product W) = length (dim_product W') \<and>
         length (dim_date W) = length (dim_date W') \<and>
         length (fact_sales W) = length (fact_sales W')"
proof -
  from assms have "length (map (dc_updated_at_update (\<lambda>t. 0)) (dim_customer W))
      = length (map (dc_updated_at_update (\<lambda>t. 0)) (dim_customer W'))"
    and "length (map (dp_updated_at_update (\<lambda>t. 0)) (dim_product W))
      = length (map (dp_updated_at_update (\<lambda>t. 0)) (dim_product W'))"
    and "dim_date W = dim_date W'" and "fact_sales W = fact_sales W'"
    by (simp_all only: same_but_updated_at_def)
  then show ?thesis by simp
qed

text \<open>
  C9 as amended: let a first run of the pipeline leave the warehouse \<open>W1\<close>, and let a
  second run on the same input start from \<open>W1\<close>, with a store that raises in every
  transaction in which it raised during the first run (so in particular after a first
  run that met no store error).  Then the second run leaves the same number of rows in
  each of the four tables, and the same values in them except in the column
  \<open>updated_at\<close> of \<open>dim_customer\<close> and \<open>dim_product\<close>.
\<close>

theorem rerun_same_rows:
  assumes "\<forall>t. raises db1 t \<longrightarrow> raises db2 t"
    and "run_etl db1 L W0 sales customers products = (W1, r1)"
    and "run_etl db2 L W1 sales customers products = (W2, r2)"
  shows "same_but_updated_at W2 W1 \<and>
         length (dim_customer W2) = length (dim_customer W1) \<and>
         length (dim_product W2) = length (dim_product W1) \<and>
         length (dim_date W2) = length (dim_date W1) \<and>
         length (fact_sales W2) = length (fact_sales W1)"
proof -
  have "same_but_updated_at W2 W1"
  proof (cases "transform_all L sales customers products")
    case (Inl e)
    with assms(2,3) have "W2 = W1" by (simp add: run_etl_def)
    then show ?thesis by (simp add: same_but_updated_at_refl)
  next
    case (Inr frames)
    obtain s c p d where "frames = (s, c, p, d)" by (cases frames)
    with Inr assms(2,3) have "load_all db1 L W0 s c p d = (W1, r1)"
      and "load_all db2 L W1 s c p d = (W2, r2)"
      by (simp_all add: run_etl_def)
    with assms(1) show ?thesis by (rule load_all_twice)
  qed
  with same_but_updated_at_lengths [of W2 W1] show ?thesis by simp
qed

lemmas pipeline_eval =
  run_etl_def transform_all_def transform_sales_data_def transform_customers_data_def
  transform_products_data_def remove_duplicates_def drop_duplicates_def sales_columns_def
  customer_columns_def product_columns_def dropna_def to_numeric_def gt0_def fillna_def
  astype_int_def trunc_def to_datetime_def raw_sale_def alice_raw_def widget_costing_def
  scenario_lib_def create_date_dimension_def unique_def date_record_def py_index_def
  month_names_def day_names_def weekday_def toordinal_def days_before_year_def
  days_before_month_def is_leap_def str_int_def digit_def load_all_def load_dim_customer_def
  load_dim_product_def load_dim_date_def load_fact_sales_def upsert_dim_customer_def
  upsert_dim_product_def insert_dim_date_def upsert_fact_sales_def insert_on_conflict_def
  date_lookup_of_def customer_lookup_of_def product_lookup_of_def lookup_keys_def
  fact_record_def truthy_def py_int_def py_float_def quiet_store_def empty_warehouse_def
  alice_def widget_def march_15_def fact_100_def

lemma scenario_transformed:
  "transform_all scenario_lib [raw_sale (Num 100) (Num 3)] [alice_raw] [widget_costing (Num (5 / 2))]
     = Inr ([sale_on 2024 3 15], [alice_raw], [widget_costing (Num (5 / 2))], [dt_values (march_15 1)])"
  by (simp add: pipeline_eval sale_on_def)

text \<open>
  The end-to-end scenario on an empty warehouse, at time 10: one row per dimension, each
  under the surrogate key 1, and the fact row of sale 100 linked to them.
\<close>

lemma scenario_first_run:
  "run_etl (quiet_store 10) scenario_lib empty_warehouse
     [raw_sale (Num 100) (Num 3)] [alice_raw] [widget_costing (Num (5 / 2))]
   = (\<lparr>dim_customer = [(alice 1)\<lparr>dc_updated_at := 10\<rparr>],
       dim_product = [(widget 1)\<lparr>dp_updated_at := 10\<rparr>],
       dim_date = [march_15 1], fact_sales = [fact_100 1 1 1 3],
       customer_key_seq = 2, product_key_seq = 2, date_key_seq = 2\<rparr>, None)"
  by (simp add: pipeline_eval)

lemma scenario_second_run:
  "run_etl (quiet_store 20) scenario_lib
     \<lparr>dim_customer = [(alice 1)\<lparr>dc_updated_at := 10\<rparr>],
       dim_product = [(widget 1)\<lparr>dp_updated_at := 10\<rparr>],
       dim_date = [march_15 1], fact_sales = [fact_100 1 1 1 3],
       customer_key_seq = 2, product_key_seq = 2, date_key_seq = 2\<rparr>
     [raw_sale (Num 100) (Num 3)] [alice_raw] [widget_costing (Num (5 / 2))]
   = (\<lparr>dim_customer = [(alice 1)\<lparr>dc_updated_at := 20\<rparr>],
       dim_product = [(widget 1)\<lparr>dp_updated_at := 20\<rparr>],
       dim_date = [march_15 1], fact_sales = [fact_100 1 1 1 3],
       customer_key_seq = 3, product_key_seq = 3, date_key_seq = 3\<rparr>, None)"
  by (simp add: pipeline_eval)

text \<open>
  C9 fails on the code: a second run of the scenario at time 20 leaves \<open>dim_customer\<close>
  with another value (in \<open>updated_at\<close>) than the first run at time 10 did.
\<close>

theorem rerun_changes_updated_at:
  "dim_customer (fst (run_etl (quiet_store 20) scenario_lib
      (fst (run_etl (quiet_store 10) scenario_lib empty_warehouse
         [raw_sale (Num 100) (Num 3)] [alice_raw] [widget_costing (Num (5 / 2))]))
      [raw_sale (Num 100) (Num 3)] [alice_raw] [widget_costing (Num (5 / 2))]))
   \<noteq> dim_customer (fst (run_etl (quiet_store 10) scenario_lib empty_warehouse
         [raw_sale (Num 100) (Num 3)] [alice_raw] [widget_costing (Num (5 / 2))]))"
  unfolding scenario_first_run fst_conv scenario_second_run
  by (simp add: alice_def)

text \<open>The two runs of the scenario, at the times 10 and 20.\<close>

theorem rerun_same_rows_witness:
  "(\<exists>W1 W2. run_etl (quiet_store 10) scenario_lib empty_warehouse
        [raw_sale (Num 100) (Num 3)] [alice_raw] [widget_costing (Num (5 / 2))] = (W1, None) \<and>
      run_etl (quiet_store 20) scenario_lib W1
        [raw_sale (Num 100) (Num 3)] [alice_raw] [widget_costing (Num (5 / 2))] = (W2, None) \<and>
      same_but_updated_at W2 W1 \<and> fact_sales W1 = [fact_100 1 1 1 3] \<and>
      length (dim_customer W2) = length (dim_customer W1))"
proof -
  have quiet: "\<forall>t. raises (quiet_store 10) t \<longrightarrow> raises (quiet_store 20) t"
    by (simp add: quiet_store_def)
  from rerun_same_rows [OF quiet scenario_first_run scenario_second_run]
  show ?thesis using scenario_first_run scenario_second_run by simp
qed

section \<open>Building the date dimension\<close>

lemma date_record_valid:
  assumes "1 \<le> d_month (ts_date t)" and "d_month (ts_date t) \<le> 12"
  shows "\<exists>row. date_record t = Inr row"
  using assms weekday_range [of "ts_date t"]
  by (auto simp: date_record_def Let_def py_index_def month_names_def day_names_def
      split: sum.splits)

lemma date_record_date:
  assumes "ts_date t = ts_date t'"
  shows "date_record t = date_record t'"
  unfolding date_record_def assms by (rule refl)

lemma date_ord_inj: "date_ord d = date_ord d' \<Longrightarrow> d = d'"
  by (cases d, cases d') (simp add: date_ord_def)

lemma unique_set: "set (unique xs) = set xs"
  using drop_dups_keys [of "\<lambda>x. x" "[]" xs] by (simp add: unique_def)

lemma unique_distinct: "distinct (unique xs)"
  using drop_dups_distinct [of "\<lambda>x. x" "[]" xs] by (simp add: unique_def)

lemma date_records_valid:
  assumes "\<forall>c \<in> set cs. \<exists>t. c = Ts t \<and> 1 \<le> d_month (ts_date t) \<and> d_month (ts_date t) \<le> 12"
  shows "\<exists>recs. date_records L cs = Inr recs \<and>
           list_all2 (\<lambda>c row. \<exists>t. c = Ts t \<and> date_record t = Inr row) cs recs"
  using assms
proof (induction cs)
  case Nil
  show ?case by simp
next
  case (Cons c cs)
  from Cons.prems obtain t where c: "c = Ts t"
    and m: "1 \<le> d_month (ts_date t)" "d_month (ts_date t) \<le> 12" by auto
  from date_record_valid [OF m] obtain row where row: "date_record t = Inr row" ..
  from Cons obtain recs where recs: "date_records L cs = Inr recs"
    and rel: "list_all2 (\<lambda>c row. \<exists>t. c = Ts t \<and> date_record t = Inr row) cs recs" by auto
  from c row recs have "date_records L (c # cs) = Inr (row # recs)"
    by (simp add: to_datetime_def)
  with c row rel show ?case by simp
qed

lemma date_records_function:
  assumes "list_all2 (\<lambda>c row. \<exists>t. c = Ts t \<and> date_record t = Inr row) cs recs"
  shows "recs = map (\<lambda>c. THE row. \<exists>t. c = Ts t \<and> date_record t = Inr row) cs"
  using assms by (induction cs recs rule: list_all2_induct) auto

lemma date_dimension_rows:
  assumes ne: "sales_df \<noteq> []"
    and ok: "\<forall>r \<in> set sales_df. \<exists>t. s_sale_date r = Ts t \<and>
               1 \<le> d_month (ts_date t) \<and> d_month (ts_date t) \<le> 12"
  shows "\<exists>recs. date_records L (unique (map s_sale_date sales_df)) = Inr recs \<and>
           recs \<noteq> [] \<and>
           recs = map (\<lambda>c. THE row. \<exists>t. c = Ts t \<and> date_record t = Inr row)
                    (unique (map s_sale_date sales_df)) \<and>
           list_all2 (\<lambda>c row. \<exists>t. c = Ts t \<and> date_record t = Inr row)
             (unique (map s_sale_date sales_df)) recs \<and>
           inj_on (\<lambda>r. date_ord (dd_sale_date r)) (set recs) \<and>
           create_date_dimension L sales_df
             = Inr (sort_key (\<lambda>r. date_ord (dd_sale_date r)) recs)"
proof -
  let ?U = "unique (map s_sale_date sales_df)"
  let ?R = "\<lambda>c row. \<exists>t. c = Ts t \<and> date_record t = Inr row"
  have setU: "set ?U = s_sale_date ` set sales_df" by (simp add: unique_set)
  with ok have "\<forall>c \<in> set ?U. \<exists>t. c = Ts t \<and> 1 \<le> d_month (ts_date t) \<and> d_month (ts_date t) \<le> 12"
    by auto
  from date_records_valid [OF this] obtain recs where recs: "date_records L ?U = Inr recs"
    and rel: "list_all2 ?R ?U recs" by blast
  from ne setU have "?U \<noteq> []" by (cases sales_df) auto
  with rel have nonempty: "recs \<noteq> []" by (auto simp: list_all2_Nil2)
  have inj: "inj_on (\<lambda>r. date_ord (dd_sale_date r)) (set recs)"
  proof (rule inj_onI)
    fix x y assume x: "x \<in> set recs" and y: "y \<in> set recs"
      and k: "date_ord (dd_sale_date x) = date_ord (dd_sale_date y)"
    from rel x obtain tx where tx: "date_record tx = Inr x"
      by (auto simp: in_set_conv_nth list_all2_conv_all_nth)
    from rel y obtain ty where ty: "date_record ty = Inr y"
      by (auto simp: in_set_conv_nth list_all2_conv_all_nth)
    from k have "dd_sale_date x = dd_sale_date y" by (rule date_ord_inj)
    with date_record_Inr(1) [OF tx] date_record_Inr(1) [OF ty] have "ts_date tx = ts_date ty"
      by simp
    from date_record_date [OF this] tx ty show "x = y" by simp
  qed
  from recs nonempty have "create_date_dimension L sales_df
             = Inr (sort_key (\<lambda>r. date_ord (dd_sale_date r)) recs)"
    by (simp add: create_date_dimension_def)
  with recs nonempty rel inj date_records_function [OF rel] show ?thesis by blast
qed

text \<open>
  What the builder does for a cleaned sales set with at least one row: it returns one row
  per distinct \<open>sale_date\<close> value of the input, sorted by date, and the result is the
  same for every input with the same multiset of \<open>sale_date\<close> values, whatever the
  library parameter.  (Two timestamps on one day are two values and give two equal rows.)
\<close>

lemma date_dimension_of_nonempty_sales:
  assumes ne: "sales_df \<noteq> []"
    and ok: "\<forall>r \<in> set sales_df. \<exists>t. s_sale_date r = Ts t \<and>
               1 \<le> d_month (ts_date t) \<and> d_month (ts_date t) \<le> 12"
  shows "\<exists>date_dim. create_date_dimension L sales_df = Inr date_dim \<and>
           sorted (map (\<lambda>r. date_ord (dd_sale_date r)) date_dim) \<and>
           length date_dim = card (s_sale_date ` set sales_df) \<and>
           (\<forall>t. Ts t \<in> s_sale_date ` set sales_df \<longrightarrow>
                (\<exists>row \<in> set date_dim. date_record t = Inr row)) \<and>
           (\<forall>row \<in> set date_dim. \<exists>t. Ts t \<in> s_sale_date ` set sales_df \<and>
                date_record t = Inr row) \<and>
           (\<forall>L' (df'::sales_row list). mset (map s_sale_date df') = mset (map s_sale_date sales_df) \<longrightarrow>
                create_date_dimension L' df' = Inr date_dim)"
proof -
  let ?U = "unique (map s_sale_date sales_df)"
  let ?R = "\<lambda>c row. \<exists>t. c = Ts t \<and> date_record t = Inr row"
  let ?g = "\<lambda>c. THE row. \<exists>t. c = Ts t \<and> date_record t = Inr row"
  let ?k = "\<lambda>r. date_ord (dd_sale_date r)"
  from date_dimension_rows [OF ne ok, of L] obtain recs where
    nonempty: "recs \<noteq> []" and fn: "recs = map ?g ?U" and rel: "list_all2 ?R ?U recs"
    and inj: "inj_on ?k (set recs)"
    and dim: "create_date_dimension L sales_df = Inr (sort_key ?k recs)" by blast
  let ?dim = "sort_key ?k recs"
  have setU: "set ?U = s_sale_date ` set sales_df" by (simp add: unique_set)
  have len: "length ?dim = card (s_sale_date ` set sales_df)"
    using rel distinct_card [OF unique_distinct, of "map s_sale_date sales_df"] setU
    by (simp add: list_all2_lengthD)
  have each: "\<forall>t. Ts t \<in> s_sale_date ` set sales_df \<longrightarrow> (\<exists>row \<in> set ?dim. date_record t = Inr row)"
  proof (intro allI impI)
    fix t assume "Ts t \<in> s_sale_date ` set sales_df"
    with setU have "Ts t \<in> set ?U" by simp
    then obtain i where i: "i < length ?U" "?U ! i = Ts t" by (auto simp: in_set_conv_nth)
    with rel have "date_record t = Inr (recs ! i)" "i < length recs"
      by (auto simp: list_all2_conv_all_nth)
    then show "\<exists>row \<in> set ?dim. date_record t = Inr row" by auto
  qed
  have only: "\<forall>row \<in> set ?dim. \<exists>t. Ts t \<in> s_sale_date ` set sales_df \<and> date_record t = Inr row"
  proof
    fix row assume "row \<in> set ?dim"
    then have "row \<in> set recs" by simp
    then obtain i where i: "i < length recs" "recs ! i = row" by (auto simp: in_set_conv_nth)
    with rel obtain t where "?U ! i = Ts t" "date_record t = Inr row" "i < length ?U"
      by (auto simp: list_all2_conv_all_nth)
    with setU show "\<exists>t. Ts t \<in> s_sale_date ` set sales_df \<and> date_record t = Inr row"
      by (metis nth_mem)
  qed
  have det: "\<forall>L' (df'::sales_row list). mset (map s_sale_date df') = mset (map s_sale_date sales_df) \<longrightarrow>
                create_date_dimension L' df' = Inr ?dim"
  proof (intro allI impI)
    fix L' and df' :: "sales_row list" assume same: "mset (map s_sale_date df') = mset (map s_sale_date sales_df)"
    then have sets: "set (map s_sale_date df') = set (map s_sale_date sales_df)"
      by (rule mset_eq_setD)
    from same ne have ne': "df' \<noteq> []" by auto
    from sets ok have ok': "\<forall>r \<in> set df'. \<exists>t. s_sale_date r = Ts t \<and>
               1 \<le> d_month (ts_date t) \<and> d_month (ts_date t) \<le> 12"
      by (simp add: image_iff set_eq_iff) metis
    let ?U' = "unique (map s_sale_date df')"
    from date_dimension_rows [OF ne' ok', of L'] obtain recs' where
      fn': "recs' = map ?g ?U'"
      and dim': "create_date_dimension L' df' = Inr (sort_key ?k recs')" by blast
    have "set ?U' = set ?U" using sets by (simp add: unique_set)
    then have "mset ?U' = mset ?U"
      using unique_distinct [of "map s_sale_date df'"] unique_distinct [of "map s_sale_date sales_df"]
      by (simp add: set_eq_iff_mset_eq_distinct)
    then have "mset recs' = mset recs" unfolding fn fn' by simp
    then have "mset recs = mset (sort_key ?k recs')" by simp
    from sort_key_inj_key_eq [OF this inj] have "sort_key ?k recs = sort_key ?k recs'"
      by simp
    with dim' show "create_date_dimension L' df' = Inr ?dim" by simp
  qed
  from dim len each only det show ?thesis by (intro exI [of _ ?dim] conjI) simp_all
qed

text \<open>
  C7, at a cleaned sales set without rows: the builder raises KeyError instead of
  returning an empty dimension.  A sales file whose only row has quantity 0 is cleaned
  to such a set, and the run ends with that error before any table is written.
\<close>

theorem create_date_dimension_no_sales:
  "create_date_dimension L [] = Inl KeyError \<and>
   transform_sales_data scenario_lib [raw_sale (Num 101) (Num 0)] = Inr [] \<and>
   run_etl (quiet_store 10) scenario_lib empty_warehouse
     [raw_sale (Num 101) (Num 0)] [alice_raw] [widget_costing (Num (5 / 2))]
     = (empty_warehouse, Some KeyError)"
  by (simp add: create_date_dimension_def unique_def run_etl_def transform_all_def
      transform_sales_data_def remove_duplicates_def drop_duplicates_def sales_columns_def
      dropna_def to_numeric_def gt0_def to_datetime_def raw_sale_def scenario_lib_def)

end
